theory Spec2Isabelle
  imports Main
begin

section \<open>JavaScript values, exceptions and the platform\<close>

text \<open>
  The SDK is TypeScript on Node. Strings are modelled as \<^typ>\<open>string\<close>: lists of code
  units below 256, the range in which Node delivers HTTP header values; a payload string
  stands for the bytes that are signed. Numbers that the code treats as integers (epoch
  seconds, ages, the freshness bound) are modelled as \<^typ>\<open>int\<close>, which is exact for the
  safe integers of a JavaScript double.
\<close>

datatype jsval =
    JNull
  | JBool bool
  | JNum int
  | JBigInt int
  | JStr string
  | JArr "jsval list"
  | JObj "(string \<times> jsval) list"

text \<open>
  A \<open>number\<close> that comes out of floating-point arithmetic: exact when it is known to be
  an integer, otherwise the double \<open>parseFloat(s) * 1000\<close> left uninterpreted.
\<close>

datatype number = Exact int | ParseFloat_times_1000 string

text \<open>
  Everything the code can throw. \<open>Thrown v\<close> is a thrown value that is not an instance of
  \<open>Error\<close>. The \<open>Nope...\<close> classes are those of \<open>errors.ts\<close>, with the arguments of their
  constructors; \<open>WebhookSignatureError\<close> is the class of the webhook module.
\<close>

datatype exn =
    WebhookSignatureError string
  | SyntaxError string
  | TypeError string
  | RangeError string
  | AbortError string
  | Error string
  | Thrown jsval
  | NopeError string "nat option" "string option"
  | NopeAuthError string "string option"
  | NopeRateLimitError string "number option" "string option"
  | NopeValidationError string "string option"
  | NopeServerError string nat "string option"
  | NopeConnectionError string "exn option"

record http_request =
  req_url :: string
  req_method :: string
  req_headers :: "(string \<times> string) list"
  req_body :: "string option"

record response =
  status :: nat
  headers_get :: "string \<Rightarrow> string option"
  response_text :: string

datatype fetch_outcome = Resolved response | Rejected exn

text \<open>
  What the code takes from Node and the network, as parameters:
  \<^item> \<open>createHmac_sha256_hex secret message\<close> is
    \<open>createHmac('sha256', secret).update(message).digest('hex')\<close>;
  \<^item> \<open>JSON_stringify\<close> and \<open>JSON_parse\<close> return \<open>Inl\<close> of the message of the \<open>TypeError\<close>
    (cyclic object, BigInt) or \<open>SyntaxError\<close> they throw;
  \<^item> \<open>ToString\<close> is the conversion the \<open>Error\<close> constructor applies to its message;
  \<^item> \<open>Date_now\<close> is the clock, in milliseconds;
  \<^item> \<open>fetch\<close> is the outcome of the HTTP call, rejection on abort included.
\<close>

record platform =
  createHmac_sha256_hex :: "string \<Rightarrow> string \<Rightarrow> string"
  JSON_stringify :: "jsval \<Rightarrow> string + string"
  JSON_parse :: "string \<Rightarrow> string + jsval"
  ToString :: "jsval \<Rightarrow> string"
  Date_now :: int
  fetch :: "http_request \<Rightarrow> fetch_outcome"

section \<open>Number and string primitives\<close>

text \<open>
  \<open>String(n)\<close> and \<open>`${n}`\<close> for an integer \<open>n\<close>: its decimal representation. This is what
  JavaScript prints for a safe integer (\<open>Number.isSafeInteger\<close>); a double beyond that range
  is printed from its shortest round-trip digits, in exponent notation from \<open>1e21\<close>, which
  is not modelled. The theorems that state a printed number assume it is a safe integer.
\<close>

definition digit_char :: "nat \<Rightarrow> char" where
  "digit_char d = ''0123456789'' ! d"

fun decimal :: "nat \<Rightarrow> string" where
  "decimal n = (if n < 10 then [digit_char n] else decimal (n div 10) @ [digit_char (n mod 10)])"

declare decimal.simps [simp del]

definition Number_toString :: "int \<Rightarrow> string" where
  "Number_toString n = (if n < 0 then CHR ''-'' # decimal (nat (- n)) else decimal (nat n))"

text \<open>
  \<open>parseInt(s, 10)\<close>: leading white space is skipped, one sign is read, then the longest
  run of decimal digits; no digit gives \<open>NaN\<close>, here \<open>None\<close>. Whatever follows the digits
  is ignored. \<open>Some n\<close> is the integer that the digits denote; \<open>parseInt\<close> returns the
  double nearest to it, which is \<open>n\<close> itself when \<open>n\<close> is a safe integer. The theorems that
  compute with the parsed value assume it is one.
\<close>

definition is_white_space :: "char \<Rightarrow> bool" where
  "is_white_space c = (c \<in> set [CHR 0x09, CHR 0x0A, CHR 0x0B, CHR 0x0C, CHR 0x0D, CHR 0x20, CHR 0xA0])"

definition is_digit :: "char \<Rightarrow> bool" where
  "is_digit c = (48 \<le> (of_char c :: nat) \<and> (of_char c :: nat) \<le> 57)"

definition digit_val :: "char \<Rightarrow> nat" where
  "digit_val c = of_char c - 48"

definition digits_value :: "string \<Rightarrow> nat" where
  "digits_value Z = foldl (\<lambda>acc c. 10 * acc + digit_val c) 0 Z"

definition parseInt10 :: "string \<Rightarrow> int option" where
  "parseInt10 inputString =
     (let S = dropWhile is_white_space inputString;
          sgn_minus = (S \<noteq> [] \<and> hd S = CHR ''-'');
          S' = (if S \<noteq> [] \<and> (hd S = CHR ''+'' \<or> hd S = CHR ''-'') then tl S else S);
          Z = takeWhile is_digit S'
      in if Z = [] then None
         else Some (if sgn_minus then - int (digits_value Z) else int (digits_value Z)))"

text \<open>\<open>signature.replace(/^sha256=/, '')\<close>\<close>

definition strip_sha256_prefix :: "string \<Rightarrow> string" where
  "strip_sha256_prefix s = (if take 7 s = ''sha256='' then drop 7 s else s)"

text \<open>\<open>Buffer.from(s)\<close>: the UTF-8 bytes of a string of code units below 256.\<close>

definition utf8_unit :: "char \<Rightarrow> nat list" where
  "utf8_unit c = (let n = (of_char c :: nat) in
     if n < 128 then [n] else [192 + n div 64, 128 + n mod 64])"

definition Buffer_from :: "string \<Rightarrow> nat list" where
  "Buffer_from s = concat (map utf8_unit s)"

text \<open>\<open>crypto.timingSafeEqual\<close> throws a \<open>RangeError\<close> when the byte lengths differ.\<close>

definition timingSafeEqual :: "nat list \<Rightarrow> nat list \<Rightarrow> exn + bool" where
  "timingSafeEqual a b =
     (if length a \<noteq> length b
      then Inl (RangeError ''Input buffers must have the same byte length'')
      else Inr (a = b))"

section \<open>Webhook verification\<close>

datatype payload = PString string | PObject jsval

record WebhookVerifyOptions =
  maxAgeSeconds :: "int option"

record signed =
  signature :: string
  timestamp :: string

text \<open>
  \<open>typeof payload === 'string' ? payload : JSON.stringify(payload)\<close>. The exception of
  \<open>JSON.stringify\<close> is not caught by verify or sign. (An object for which
  \<open>JSON.stringify\<close> returns \<open>undefined\<close>, a function, is not a \<^typ>\<open>jsval\<close>.)
\<close>

definition payloadString :: "platform \<Rightarrow> payload \<Rightarrow> exn + string" where
  "payloadString pf p =
     (case p of
        PString s \<Rightarrow> Inr s
      | PObject v \<Rightarrow> (case JSON_stringify pf v of Inl m \<Rightarrow> Inl (TypeError m) | Inr s \<Rightarrow> Inr s))"

text \<open>
  \<open>Webhook.verify(payload, signature, timestamp, secret, options)\<close>. A header that is
  \<open>undefined\<close> is \<open>None\<close>; \<open>!x\<close> holds of \<open>undefined\<close> and of the empty string.
\<close>

definition verify ::
  "platform \<Rightarrow> payload \<Rightarrow> string option \<Rightarrow> string option \<Rightarrow> string \<Rightarrow> WebhookVerifyOptions
     \<Rightarrow> exn + jsval" where
  "verify pf p signature_hdr timestamp_hdr secret options =
     (let maxAge = (case maxAgeSeconds options of None \<Rightarrow> 300 | Some m \<Rightarrow> m) in
      (case signature_hdr of
        None \<Rightarrow> Inl (WebhookSignatureError ''Missing X-NOPE-Signature header'')
      | Some sg \<Rightarrow>
      (if sg = [] then Inl (WebhookSignatureError ''Missing X-NOPE-Signature header'') else
      (case timestamp_hdr of
        None \<Rightarrow> Inl (WebhookSignatureError ''Missing X-NOPE-Timestamp header'')
      | Some ts \<Rightarrow>
      (if ts = [] then Inl (WebhookSignatureError ''Missing X-NOPE-Timestamp header'') else
      (if secret = [] then Inl (WebhookSignatureError ''Webhook secret is required'') else
      (case parseInt10 ts of
        None \<Rightarrow> Inl (WebhookSignatureError ''Invalid timestamp format'')
      | Some timestampNum \<Rightarrow>
      (case (if maxAge > 0 then
               (let now = Date_now pf div 1000;
                    age = now - timestampNum
                in (if age > maxAge then
                      Some (WebhookSignatureError
                        (''Timestamp too old: '' @ Number_toString age @ ''s ago (max: ''
                           @ Number_toString maxAge @ ''s)''))
                    else (if age < - maxAge then
                      Some (WebhookSignatureError
                        (''Timestamp too far in future: '' @ Number_toString (- age)
                           @ ''s ahead (max: '' @ Number_toString maxAge @ ''s)''))
                    else None)))
             else None) of
        Some e \<Rightarrow> Inl e
      | None \<Rightarrow>
      (case payloadString pf p of
        Inl e \<Rightarrow> Inl e
      | Inr ps \<Rightarrow>
      (let message = ts @ ''.'' @ ps;
           expected = createHmac_sha256_hex pf secret message;
           received = strip_sha256_prefix sg;
           isValid = (case timingSafeEqual (Buffer_from expected) (Buffer_from received) of
                        Inl _ \<Rightarrow> False
                      | Inr b \<Rightarrow> b)
       in (if \<not> isValid then Inl (WebhookSignatureError ''Signature verification failed'')
           else (case p of
                   PString s \<Rightarrow>
                     (case JSON_parse pf s of Inl m \<Rightarrow> Inl (SyntaxError m) | Inr v \<Rightarrow> Inr v)
                 | PObject v \<Rightarrow> Inr v))))))))))))"

text \<open>\<open>Webhook.sign(payload, secret, timestamp?)\<close>\<close>

definition sign :: "platform \<Rightarrow> payload \<Rightarrow> string \<Rightarrow> int option \<Rightarrow> exn + signed" where
  "sign pf p secret timestamp_opt =
     (let ts = (case timestamp_opt of None \<Rightarrow> Date_now pf div 1000 | Some t \<Rightarrow> t) in
      (case payloadString pf p of
        Inl e \<Rightarrow> Inl e
      | Inr ps \<Rightarrow>
      (let message = Number_toString ts @ ''.'' @ ps;
           sg = createHmac_sha256_hex pf secret message
       in Inr \<lparr>signature = ''sha256='' @ sg, timestamp = Number_toString ts\<rparr>)))"

text \<open>A rejection on freshness grounds: one of the two \<open>Timestamp too ...\<close> messages.\<close>

definition is_freshness_rejection :: "exn + jsval \<Rightarrow> bool" where
  "is_freshness_rejection r =
     (case r of Inl (WebhookSignatureError m) \<Rightarrow> take 14 m = ''Timestamp too '' | _ \<Rightarrow> False)"

text \<open>A rejection with the error class of the webhook module.\<close>

definition is_WebhookSignatureError :: "exn + jsval \<Rightarrow> bool" where
  "is_WebhookSignatureError r = (case r of Inl (WebhookSignatureError m) \<Rightarrow> True | _ \<Rightarrow> False)"

text \<open>The characters of \<open>digest('hex')\<close>: decimal digits and the lower-case letters a to f.\<close>

definition is_hex :: "char \<Rightarrow> bool" where
  "is_hex c = (is_digit c \<or> (97 \<le> (of_char c :: nat) \<and> (of_char c :: nat) \<le> 102))"

text \<open>
  Flipping one bit of a string: bit \<open>i mod 8\<close> of the code unit at index \<open>i div 8\<close>.
\<close>

fun flip_char :: "nat \<Rightarrow> char \<Rightarrow> char" where
  "flip_char k (Char b0 b1 b2 b3 b4 b5 b6 b7) =
     Char (b0 \<noteq> (k = 0)) (b1 \<noteq> (k = 1)) (b2 \<noteq> (k = 2)) (b3 \<noteq> (k = 3))
          (b4 \<noteq> (k = 4)) (b5 \<noteq> (k = 5)) (b6 \<noteq> (k = 6)) (b7 \<noteq> (k = 7))"

definition flip_bit_at :: "nat \<Rightarrow> string \<Rightarrow> string" where
  "flip_bit_at i s = s[i div 8 := flip_char (i mod 8) (s ! (i div 8))]"



text \<open>
  \<open>Number.isSafeInteger\<close>: the integers on which the arithmetic of doubles is exact. The
  time values that \<open>Date.now()\<close> can return are within 8.64e15 milliseconds of the epoch;
  for them \<open>Math.floor(Date.now() / 1000)\<close> is the integer quotient.
\<close>

definition is_safe_integer :: "int \<Rightarrow> bool" where
  "is_safe_integer n = (\<bar>n\<bar> \<le> 9007199254740991)"

definition is_time_value :: "int \<Rightarrow> bool" where
  "is_time_value ms = (\<bar>ms\<bar> \<le> 8640000000000000)"

text \<open>
  The decimal representation of an integer, in the words of the specification: an optional
  minus sign followed by one or more decimal digits and nothing else.
\<close>

definition is_decimal_integer :: "string \<Rightarrow> bool" where
  "is_decimal_integer s =
     (case s of
        [] \<Rightarrow> False
      | c # cs \<Rightarrow> if c = CHR ''-'' then cs \<noteq> [] \<and> list_all is_digit cs
                 else list_all is_digit (c # cs))"

section \<open>The client\<close>

definition DEFAULT_BASE_URL :: string where
  "DEFAULT_BASE_URL = ''https://api.nope.net''"

definition DEFAULT_TIMEOUT :: int where
  "DEFAULT_TIMEOUT = 30000"

record NopeClientOptions =
  opt_apiKey :: "string option"
  opt_baseUrl :: "string option"
  opt_timeout :: "int option"

record NopeClient =
  apiKey :: "string option"
  baseUrl :: string
  timeout :: int

text \<open>\<open>s.replace(/\/$/, '')\<close>\<close>

definition strip_trailing_slash :: "string \<Rightarrow> string" where
  "strip_trailing_slash s = (if s \<noteq> [] \<and> last s = CHR ''/'' then butlast s else s)"

definition new_NopeClient :: "NopeClientOptions \<Rightarrow> NopeClient" where
  "new_NopeClient options =
     \<lparr>apiKey = opt_apiKey options,
      baseUrl = strip_trailing_slash
                  (case opt_baseUrl options of None \<Rightarrow> DEFAULT_BASE_URL | Some u \<Rightarrow> u),
      timeout = (case opt_timeout options of None \<Rightarrow> DEFAULT_TIMEOUT | Some t \<Rightarrow> t)\<rparr>"

record ScreenOptions =
  messages :: "jsval option"
  text_input :: "string option"
  config :: "jsval option"

record EvaluateOptions = ScreenOptions +
  userContext :: "string option"

text \<open>\<open>error instanceof Error\<close>, \<open>error.name\<close> and \<open>error.message\<close>\<close>

fun instanceof_Error :: "exn \<Rightarrow> bool" where
  "instanceof_Error (Thrown v) = False"
| "instanceof_Error e = True"

fun error_name :: "exn \<Rightarrow> string" where
  "error_name (WebhookSignatureError m) = ''WebhookSignatureError''"
| "error_name (SyntaxError m) = ''SyntaxError''"
| "error_name (TypeError m) = ''TypeError''"
| "error_name (RangeError m) = ''RangeError''"
| "error_name (AbortError m) = ''AbortError''"
| "error_name (Error m) = ''Error''"
| "error_name (Thrown v) = []"
| "error_name (NopeError m c b) = ''NopeError''"
| "error_name (NopeAuthError m b) = ''NopeAuthError''"
| "error_name (NopeRateLimitError m r b) = ''NopeRateLimitError''"
| "error_name (NopeValidationError m b) = ''NopeValidationError''"
| "error_name (NopeServerError m c b) = ''NopeServerError''"
| "error_name (NopeConnectionError m e) = ''NopeConnectionError''"

fun error_message :: "exn \<Rightarrow> string" where
  "error_message (WebhookSignatureError m) = m"
| "error_message (SyntaxError m) = m"
| "error_message (TypeError m) = m"
| "error_message (RangeError m) = m"
| "error_message (AbortError m) = m"
| "error_message (Error m) = m"
| "error_message (Thrown v) = []"
| "error_message (NopeError m c b) = m"
| "error_message (NopeAuthError m b) = m"
| "error_message (NopeRateLimitError m r b) = m"
| "error_message (NopeValidationError m b) = m"
| "error_message (NopeServerError m c b) = m"
| "error_message (NopeConnectionError m e) = m"

text \<open>The \<open>statusCode\<close> field that each class of \<open>errors.ts\<close> passes to \<open>NopeError\<close>.\<close>

fun statusCode :: "exn \<Rightarrow> nat option" where
  "statusCode (NopeError m c b) = c"
| "statusCode (NopeAuthError m b) = Some 401"
| "statusCode (NopeRateLimitError m r b) = Some 429"
| "statusCode (NopeValidationError m b) = Some 400"
| "statusCode (NopeServerError m c b) = Some c"
| "statusCode e = None"

text \<open>The \<open>retryAfter\<close> field, which only \<open>NopeRateLimitError\<close> has.\<close>

fun retryAfter :: "exn \<Rightarrow> number option" where
  "retryAfter (NopeRateLimitError m r b) = r"
| "retryAfter e = None"

text \<open>Truthiness of a value (\<open>body ? ... : undefined\<close>).\<close>

fun truthy :: "jsval \<Rightarrow> bool" where
  "truthy JNull = False"
| "truthy (JBool b) = b"
| "truthy (JNum n) = (n \<noteq> 0)"
| "truthy (JBigInt n) = (n \<noteq> 0)"
| "truthy (JStr s) = (s \<noteq> [])"
| "truthy v = True"

text \<open>\<open>response.ok\<close>: the status is in the range 200 to 299.\<close>

definition Response_ok :: "response \<Rightarrow> bool" where
  "Response_ok r = (200 \<le> status r \<and> status r \<le> 299)"

text \<open>
  \<open>parseFloat(s) * 1000\<close>. On a string of at most twelve decimal digits \<open>parseFloat\<close> yields
  the integer they denote and the product is exact; any other string is left to floating
  point.
\<close>

definition parseFloat_times_1000 :: "string \<Rightarrow> number" where
  "parseFloat_times_1000 s =
     (if s \<noteq> [] \<and> length s \<le> 12 \<and> list_all is_digit s
      then Exact (int (digits_value s) * 1000)
      else ParseFloat_times_1000 s)"

text \<open>
  \<open>handleResponse(response)\<close>, for a response whose body \<open>response.text()\<close> has delivered.
  \<open>errorData.error ?? responseText\<close> reads the \<open>error\<close> property of the parsed body; the
  \<open>TypeError\<close> of reading it from \<open>null\<close> is caught like the \<open>SyntaxError\<close> of the parse.
\<close>

definition handleResponse :: "platform \<Rightarrow> response \<Rightarrow> exn + jsval" where
  "handleResponse pf response =
     (let responseText = response_text response in
      (if Response_ok response then
         (case JSON_parse pf responseText of
            Inr v \<Rightarrow> Inr v
          | Inl _ \<Rightarrow> Inl (NopeError ''Invalid JSON response'' (Some (status response))
                         (Some responseText)))
       else
         (let errorMessage =
                (case JSON_parse pf responseText of
                   Inl _ \<Rightarrow> responseText
                 | Inr errorData \<Rightarrow>
                     (case errorData of
                        JObj props \<Rightarrow>
                          (case map_of props ''error'' of
                             None \<Rightarrow> responseText
                           | Some e \<Rightarrow>
                               (case e of
                                  JNull \<Rightarrow> responseText
                                | JStr m \<Rightarrow> m
                                | _ \<Rightarrow> ToString pf e))
                      | _ \<Rightarrow> responseText))
          in (if status response = 401 then
                Inl (NopeAuthError errorMessage (Some responseText))
              else (if status response = 400 then
                Inl (NopeValidationError errorMessage (Some responseText))
              else (if status response = 429 then
                (let retryAfter_hdr = headers_get response ''Retry-After'';
                     retryAfterMs =
                       (case retryAfter_hdr of
                          None \<Rightarrow> None
                        | Some r \<Rightarrow> if r \<noteq> [] then Some (parseFloat_times_1000 r) else None)
                 in Inl (NopeRateLimitError errorMessage retryAfterMs (Some responseText)))
              else (if status response \<ge> 500 then
                Inl (NopeServerError errorMessage (status response) (Some responseText))
              else
                Inl (NopeError errorMessage (Some (status response)) (Some responseText)))))))))"

text \<open>
  \<open>request(method, path, body)\<close>. The state is the list of the HTTP requests issued so far:
  \<open>fetch\<close> is called, and the list grows, only once its arguments are evaluated, so an
  exception of \<open>JSON.stringify(body)\<close> reaches the \<open>catch\<close> block with no request made.
  The promise of \<open>handleResponse\<close> is returned without \<open>await\<close>: its rejection is not
  caught here.
\<close>

definition request_catch :: "NopeClient \<Rightarrow> exn \<Rightarrow> exn" where
  "request_catch this error =
     (if instanceof_Error error then
        (if error_name error = ''AbortError'' then
           NopeConnectionError
             (''Request timed out after '' @ Number_toString (timeout this) @ ''ms'') (Some error)
         else
           NopeConnectionError
             (''Failed to connect to '' @ baseUrl this @ '': '' @ error_message error)
             (Some error))
      else NopeConnectionError (''Failed to connect to '' @ baseUrl this) None)"

definition request ::
  "platform \<Rightarrow> NopeClient \<Rightarrow> string \<Rightarrow> string \<Rightarrow> jsval option \<Rightarrow> http_request list
     \<Rightarrow> (exn + jsval) \<times> http_request list" where
  "request pf this method path body issued =
     (let url = baseUrl this @ path;
          headers =
            [(''Content-Type'', ''application/json''), (''User-Agent'', ''nope-node/0.1.0'')]
            @ (case apiKey this of
                 None \<Rightarrow> []
               | Some k \<Rightarrow> if k \<noteq> [] then [(''Authorization'', ''Bearer '' @ k)] else [])
      in (case (case body of
                  None \<Rightarrow> Inr None
                | Some b \<Rightarrow>
                    if truthy b then
                      (case JSON_stringify pf b of
                         Inl m \<Rightarrow> Inl (TypeError m)
                       | Inr s \<Rightarrow> Inr (Some s))
                    else Inr None) of
            Inl error \<Rightarrow> (Inl (request_catch this error), issued)
          | Inr body_string \<Rightarrow>
              (let req = \<lparr>req_url = url, req_method = method, req_headers = headers,
                          req_body = body_string\<rparr>
               in (case fetch pf req of
                     Rejected error \<Rightarrow> (Inl (request_catch this error), issued @ [req])
                   | Resolved response \<Rightarrow> (handleResponse pf response, issued @ [req])))))"

text \<open>\<open>evaluate(options)\<close> and \<open>screen(options)\<close>\<close>

definition evaluate ::
  "platform \<Rightarrow> NopeClient \<Rightarrow> EvaluateOptions \<Rightarrow> http_request list
     \<Rightarrow> (exn + jsval) \<times> http_request list" where
  "evaluate pf this options issued =
     (if messages options = None \<and> text_input options = None then
        (Inl (Error ''Either 'messages' or 'text' must be provided''), issued)
      else (if messages options \<noteq> None \<and> text_input options \<noteq> None then
        (Inl (Error ''Only one of 'messages' or 'text' can be provided, not both''), issued)
      else
        (let payload =
               JObj ([(''config'',
                       (case config options of
                          None \<Rightarrow> JObj []
                        | Some c \<Rightarrow> if c = JNull then JObj [] else c))]
                     @ (case messages options of None \<Rightarrow> [] | Some m \<Rightarrow> [(''messages'', m)])
                     @ (case text_input options of None \<Rightarrow> [] | Some t \<Rightarrow> [(''text'', JStr t)])
                     @ (case userContext options of
                          None \<Rightarrow> []
                        | Some u \<Rightarrow> [(''user_context'', JStr u)]))
         in request pf this ''POST'' ''/v1/evaluate'' (Some payload) issued)))"

definition screen ::
  "platform \<Rightarrow> NopeClient \<Rightarrow> ScreenOptions \<Rightarrow> http_request list
     \<Rightarrow> (exn + jsval) \<times> http_request list" where
  "screen pf this options issued =
     (if messages options = None \<and> text_input options = None then
        (Inl (Error ''Either 'messages' or 'text' must be provided''), issued)
      else (if messages options \<noteq> None \<and> text_input options \<noteq> None then
        (Inl (Error ''Only one of 'messages' or 'text' can be provided, not both''), issued)
      else
        (let payload =
               JObj ((case messages options of None \<Rightarrow> [] | Some m \<Rightarrow> [(''messages'', m)])
                     @ (case text_input options of None \<Rightarrow> [] | Some t \<Rightarrow> [(''text'', JStr t)])
                     @ (case config options of None \<Rightarrow> [] | Some c \<Rightarrow> [(''config'', c)]))
         in request pf this ''POST'' ''/v1/screen'' (Some payload) issued)))"

section \<open>A platform for the examples\<close>

text \<open>
  The theorems below hold for every platform. Their examples run on this one: the hex
  encoding of key and message, which is injective in the message, in place of HMAC-SHA256,
  \<open>JSON.stringify\<close> on the values of \<^typ>\<open>jsval\<close>, \<open>JSON.parse\<close> restricted to the documents
  the examples use (the other texts they pass to it are not JSON), a fixed clock, and a
  server that answers every request with status 429 and \<open>Retry-After: 30\<close>.
\<close>

definition hex_digit :: "nat \<Rightarrow> char" where
  "hex_digit d = ''0123456789abcdef'' ! d"

definition hex_encode :: "string \<Rightarrow> string" where
  "hex_encode s =
     concat (map (\<lambda>c. [hex_digit (of_char c div 16), hex_digit (of_char c mod 16)]) s)"

definition demo_hmac :: "string \<Rightarrow> string \<Rightarrow> string" where
  "demo_hmac secret message = hex_encode (secret @ ''/'' @ message)"

definition json_escape :: "char \<Rightarrow> string" where
  "json_escape c =
     (let n = (of_char c :: nat) in
      if n = 8 then [CHR 0x5C, CHR ''b'']
      else if n = 9 then [CHR 0x5C, CHR ''t'']
      else if n = 10 then [CHR 0x5C, CHR ''n'']
      else if n = 12 then [CHR 0x5C, CHR ''f'']
      else if n = 13 then [CHR 0x5C, CHR ''r'']
      else if n = 34 then [CHR 0x5C, CHR 0x22]
      else if n = 92 then [CHR 0x5C, CHR 0x5C]
      else if n < 32 then
        [CHR 0x5C, CHR ''u'', CHR ''0'', CHR ''0'', hex_digit (n div 16), hex_digit (n mod 16)]
      else [c])"

definition QuoteJSONString :: "string \<Rightarrow> string" where
  "QuoteJSONString s = CHR 0x22 # concat (map json_escape s) @ [CHR 0x22]"

fun join_comma :: "string list \<Rightarrow> string" where
  "join_comma [] = []"
| "join_comma [x] = x"
| "join_comma (x # y # ys) = x @ '','' @ join_comma (y # ys)"

fun has_BigInt :: "jsval \<Rightarrow> bool"
  and has_BigInt_list :: "jsval list \<Rightarrow> bool"
  and has_BigInt_props :: "(string \<times> jsval) list \<Rightarrow> bool" where
  "has_BigInt (JBigInt n) = True"
| "has_BigInt (JArr vs) = has_BigInt_list vs"
| "has_BigInt (JObj ps) = has_BigInt_props ps"
| "has_BigInt v = False"
| "has_BigInt_list [] = False"
| "has_BigInt_list (v # vs) = (has_BigInt v \<or> has_BigInt_list vs)"
| "has_BigInt_props [] = False"
| "has_BigInt_props ((k, v) # ps) = (has_BigInt v \<or> has_BigInt_props ps)"

fun serialize :: "jsval \<Rightarrow> string"
  and serialize_list :: "jsval list \<Rightarrow> string list"
  and serialize_props :: "(string \<times> jsval) list \<Rightarrow> string list" where
  "serialize JNull = ''null''"
| "serialize (JBool b) = (if b then ''true'' else ''false'')"
| "serialize (JNum n) = Number_toString n"
| "serialize (JBigInt n) = []"
| "serialize (JStr s) = QuoteJSONString s"
| "serialize (JArr vs) = ''['' @ join_comma (serialize_list vs) @ '']''"
| "serialize (JObj ps) = ''{'' @ join_comma (serialize_props ps) @ ''}''"
| "serialize_list [] = []"
| "serialize_list (v # vs) = serialize v # serialize_list vs"
| "serialize_props [] = []"
| "serialize_props ((k, v) # ps) = (QuoteJSONString k @ '':'' @ serialize v) # serialize_props ps"

definition demo_stringify :: "jsval \<Rightarrow> string + string" where
  "demo_stringify v =
     (if has_BigInt v then Inl ''Do not know how to serialize a BigInt'' else Inr (serialize v))"

definition demo_parse :: "string \<Rightarrow> string + jsval" where
  "demo_parse s =
     (if s = ''{}'' then Inr (JObj [])
      else if s = ''[]'' then Inr (JArr [])
      else if s = ''null'' then Inr JNull
      else Inl ''Unexpected token'')"

fun demo_ToString :: "jsval \<Rightarrow> string"
  and demo_ToString_list :: "jsval list \<Rightarrow> string list" where
  "demo_ToString JNull = ''null''"
| "demo_ToString (JBool b) = (if b then ''true'' else ''false'')"
| "demo_ToString (JNum n) = Number_toString n"
| "demo_ToString (JBigInt n) = Number_toString n"
| "demo_ToString (JStr s) = s"
| "demo_ToString (JArr vs) = join_comma (demo_ToString_list vs)"
| "demo_ToString (JObj ps) = ''[object Object]''"
| "demo_ToString_list [] = []"
| "demo_ToString_list (v # vs) =
     (if v = JNull then [] else demo_ToString v) # demo_ToString_list vs"

definition demo_response :: response where
  "demo_response =
     \<lparr>status = 429,
      headers_get = (\<lambda>name. if name = ''Retry-After'' then Some ''30'' else None),
      response_text = ''{}''\<rparr>"

definition demo_platform :: platform where
  "demo_platform =
     \<lparr>createHmac_sha256_hex = demo_hmac,
      JSON_stringify = demo_stringify,
      JSON_parse = demo_parse,
      ToString = demo_ToString,
      Date_now = 1700000000000,
      fetch = (\<lambda>req. Resolved demo_response)\<rparr>"

definition demo_client :: NopeClient where
  "demo_client =
     new_NopeClient \<lparr>opt_apiKey = Some ''test_key'', opt_baseUrl = None, opt_timeout = None\<rparr>"

section \<open>Evaluation on concrete inputs\<close>

lemmas eval_defs =
  verify_def sign_def payloadString_def parseInt10_def is_white_space_def is_digit_def
  digits_value_def digit_val_def strip_sha256_prefix_def timingSafeEqual_def Buffer_from_def
  utf8_unit_def Number_toString_def decimal.simps digit_char_def Let_def
  is_freshness_rejection_def is_WebhookSignatureError_def is_decimal_integer_def
  demo_platform_def demo_hmac_def hex_encode_def hex_digit_def demo_stringify_def
  demo_parse_def QuoteJSONString_def json_escape_def

lemma demo_now: "Date_now demo_platform div 1000 = 1700000000"
  by (simp add: demo_platform_def)

lemma demo_parseInt10:
  "parseInt10 ''1700000000'' = Some 1700000000"
  "parseInt10 ''1700000000abc'' = Some 1700000000"
  "parseInt10 ''abc'' = None"
  "parseInt10 ''1'' = Some 1"
  by (simp_all add: parseInt10_def is_white_space_def is_digit_def digits_value_def digit_val_def)

lemma demo_sign:
  "sign demo_platform (PString ''{}'') ''whsec'' (Some 1700000000)
     = Inr \<lparr>signature = ''sha256=77687365632f313730303030303030302e7b7d'',
            timestamp = ''1700000000''\<rparr>"
  "sign demo_platform (PObject (JObj [])) ''whsec'' None
     = Inr \<lparr>signature = ''sha256=77687365632f313730303030303030302e7b7d'',
            timestamp = ''1700000000''\<rparr>"
  by (simp_all add: sign_def payloadString_def demo_platform_def demo_hmac_def hex_encode_def
      hex_digit_def demo_stringify_def Number_toString_def decimal.simps digit_char_def)

lemma demo_payloadString:
  "payloadString demo_platform (PString s) = Inr s"
  "payloadString demo_platform (PObject (JObj [])) = Inr ''{}''"
  by (simp_all add: payloadString_def demo_platform_def demo_stringify_def)

lemma demo_expected:
  "createHmac_sha256_hex demo_platform ''whsec'' (''1700000000'' @ ''.'' @ ''{}'')
     = ''77687365632f313730303030303030302e7b7d''"
  "createHmac_sha256_hex demo_platform ''whsec'' (''1700000000'' @ ''.'' @ ''ping'')
     = ''77687365632f313730303030303030302e70696e67''"
  by (simp_all add: demo_platform_def demo_hmac_def hex_encode_def hex_digit_def)






lemma demo_bounds:
  "is_time_value (Date_now demo_platform)"
  "is_safe_integer 1700000000" "is_safe_integer 1699999699" "is_safe_integer 1700000301"
  "is_safe_integer 1699999700" "is_safe_integer 1700000300"
  "is_safe_integer 300" "is_safe_integer 301" "is_safe_integer (- 301)" "is_safe_integer (- 300)"
  "is_safe_integer 0"
  by (simp_all add: is_time_value_def is_safe_integer_def demo_platform_def)

section \<open>The comparison step\<close>

text \<open>
  \<open>Buffer.from\<close> is injective, so the \<open>try\<close>/\<open>catch\<close> around \<open>timingSafeEqual\<close> computes
  equality of the two strings: a \<open>RangeError\<close> for different byte lengths becomes \<open>false\<close>.
\<close>

lemma utf8_unit_ne: "utf8_unit c \<noteq> []"
  by (simp add: utf8_unit_def Let_def)

lemma utf8_unit_inj_app:
  assumes "utf8_unit c @ xs = utf8_unit d @ ys"
  shows "c = d \<and> xs = ys"
proof -
  let ?n = "of_char c :: nat" and ?m = "of_char d :: nat"
  have nm: "?n = ?m \<and> xs = ys"
  proof (cases "?n < 128")
    case n: True
    show ?thesis
    proof (cases "?m < 128")
      case True
      with n assms show ?thesis by (simp add: utf8_unit_def Let_def)
    next
      case False
      with n assms show ?thesis by (simp add: utf8_unit_def Let_def)
    qed
  next
    case n: False
    show ?thesis
    proof (cases "?m < 128")
      case True
      with n assms show ?thesis by (simp add: utf8_unit_def Let_def)
    next
      case False
      with n assms have "?n div 64 = ?m div 64" "?n mod 64 = ?m mod 64" "xs = ys"
        by (simp_all add: utf8_unit_def Let_def)
      moreover have "?n = 64 * (?n div 64) + ?n mod 64" "?m = 64 * (?m div 64) + ?m mod 64"
        by simp_all
      ultimately show ?thesis by metis
    qed
  qed
  then have "c = d" by simp
  with nm show ?thesis by simp
qed

lemma Buffer_from_inj: "Buffer_from s = Buffer_from t \<Longrightarrow> s = t"
proof (induction s arbitrary: t)
  case Nil
  then show ?case by (cases t) (simp_all add: Buffer_from_def utf8_unit_ne)
next
  case (Cons c s)
  show ?case
  proof (cases t)
    case Nil
    with Cons.prems show ?thesis by (simp add: Buffer_from_def utf8_unit_ne)
  next
    case (Cons d t')
    with Cons.prems have "utf8_unit c @ Buffer_from s = utf8_unit d @ Buffer_from t'"
      by (simp add: Buffer_from_def)
    then have "c = d \<and> Buffer_from s = Buffer_from t'" by (rule utf8_unit_inj_app)
    with Cons.IH Cons show ?thesis by simp
  qed
qed

lemma isValid_iff:
  "(case timingSafeEqual (Buffer_from a) (Buffer_from b) of Inl _ \<Rightarrow> False | Inr v \<Rightarrow> v) = (a = b)"
  using Buffer_from_inj by (auto simp: timingSafeEqual_def)

lemma Buffer_from_hex: "list_all is_hex s \<Longrightarrow> Buffer_from s = map of_char s"
  by (induction s) (auto simp: Buffer_from_def utf8_unit_def Let_def is_hex_def is_digit_def)

lemma timingSafeEqual_hex_length:
  assumes "list_all is_hex a" "list_all is_hex b" "length a \<noteq> length b"
  shows "timingSafeEqual (Buffer_from a) (Buffer_from b)
           = Inl (RangeError ''Input buffers must have the same byte length'')"
  using assms by (simp add: Buffer_from_hex timingSafeEqual_def)

section \<open>The steps of verify\<close>

lemma verify_parsed:
  assumes "sg \<noteq> []" "ts \<noteq> []" "secret \<noteq> []" "parseInt10 ts = Some t"
  shows "verify pf p (Some sg) (Some ts) secret options =
     (let maxAge = (case maxAgeSeconds options of None \<Rightarrow> 300 | Some m \<Rightarrow> m);
          age = Date_now pf div 1000 - t
      in if maxAge > 0 \<and> age > maxAge then
           Inl (WebhookSignatureError
             (''Timestamp too old: '' @ Number_toString age @ ''s ago (max: ''
                @ Number_toString maxAge @ ''s)''))
         else if maxAge > 0 \<and> age < - maxAge then
           Inl (WebhookSignatureError
             (''Timestamp too far in future: '' @ Number_toString (- age)
                @ ''s ahead (max: '' @ Number_toString maxAge @ ''s)''))
         else
           (case payloadString pf p of
              Inl e \<Rightarrow> Inl e
            | Inr ps \<Rightarrow>
              if createHmac_sha256_hex pf secret (ts @ ''.'' @ ps) \<noteq> strip_sha256_prefix sg
              then Inl (WebhookSignatureError ''Signature verification failed'')
              else (case p of
                      PString s \<Rightarrow> (case JSON_parse pf s of Inl m \<Rightarrow> Inl (SyntaxError m) | Inr v \<Rightarrow> Inr v)
                    | PObject v \<Rightarrow> Inr v)))"
  using assms
  by (simp add: verify_def Let_def isValid_iff split: sum.splits)

lemma verify_fresh:
  assumes "sg \<noteq> []" "ts \<noteq> []" "secret \<noteq> []" "parseInt10 ts = Some t"
    and "maxAge = (case maxAgeSeconds options of None \<Rightarrow> 300 | Some m \<Rightarrow> m)"
    and "maxAge > 0 \<longrightarrow> \<bar>Date_now pf div 1000 - t\<bar> \<le> maxAge"
  shows "verify pf p (Some sg) (Some ts) secret options =
           (case payloadString pf p of
              Inl e \<Rightarrow> Inl e
            | Inr ps \<Rightarrow>
              if createHmac_sha256_hex pf secret (ts @ ''.'' @ ps) \<noteq> strip_sha256_prefix sg
              then Inl (WebhookSignatureError ''Signature verification failed'')
              else (case p of
                      PString s \<Rightarrow> (case JSON_parse pf s of Inl m \<Rightarrow> Inl (SyntaxError m) | Inr v \<Rightarrow> Inr v)
                    | PObject v \<Rightarrow> Inr v))"
proof (cases "maxAge > 0")
  case True
  with assms(6) have "\<not> Date_now pf div 1000 - t > maxAge"
    "\<not> Date_now pf div 1000 - t < - maxAge" by auto
  with assms(5) show ?thesis
    unfolding verify_parsed [OF assms(1-4)] by (simp add: Let_def)
next
  case False
  with assms(5) show ?thesis
    unfolding verify_parsed [OF assms(1-4)] by (simp add: Let_def)
qed

lemma after_freshness_not_rejection:
  "\<not> is_freshness_rejection
       (case payloadString pf p of
          Inl e \<Rightarrow> Inl e
        | Inr ps \<Rightarrow>
          if createHmac_sha256_hex pf secret (ts @ ''.'' @ ps) \<noteq> strip_sha256_prefix sg
          then Inl (WebhookSignatureError ''Signature verification failed'')
          else (case p of
                  PString s \<Rightarrow> (case JSON_parse pf s of Inl m \<Rightarrow> Inl (SyntaxError m) | Inr v \<Rightarrow> Inr v)
                | PObject v \<Rightarrow> Inr v))"
  by (auto simp: is_freshness_rejection_def payloadString_def split: sum.splits payload.splits exn.splits)

lemma payloadString_clock [simp]: "payloadString (pf\<lparr>Date_now := n\<rparr>) p = payloadString pf p"
  by (cases p) (simp_all add: payloadString_def)

lemma verify_no_check:
  assumes "maxAgeSeconds options = Some m" "m \<le> 0"
  shows "verify pf p signature_hdr timestamp_hdr secret options =
     (case signature_hdr of
        None \<Rightarrow> Inl (WebhookSignatureError ''Missing X-NOPE-Signature header'')
      | Some sg \<Rightarrow>
      (if sg = [] then Inl (WebhookSignatureError ''Missing X-NOPE-Signature header'') else
      (case timestamp_hdr of
        None \<Rightarrow> Inl (WebhookSignatureError ''Missing X-NOPE-Timestamp header'')
      | Some ts \<Rightarrow>
      (if ts = [] then Inl (WebhookSignatureError ''Missing X-NOPE-Timestamp header'') else
      (if secret = [] then Inl (WebhookSignatureError ''Webhook secret is required'') else
      (case parseInt10 ts of
        None \<Rightarrow> Inl (WebhookSignatureError ''Invalid timestamp format'')
      | Some timestampNum \<Rightarrow>
      (case payloadString pf p of
        Inl e \<Rightarrow> Inl e
      | Inr ps \<Rightarrow>
          if createHmac_sha256_hex pf secret (ts @ ''.'' @ ps) \<noteq> strip_sha256_prefix sg
          then Inl (WebhookSignatureError ''Signature verification failed'')
          else (case p of
                  PString s \<Rightarrow>
                    (case JSON_parse pf s of Inl m \<Rightarrow> Inl (SyntaxError m) | Inr v \<Rightarrow> Inr v)
                | PObject v \<Rightarrow> Inr v))))))))"
  using assms
  by (simp add: verify_def Let_def isValid_iff split: option.splits sum.splits)


lemma verify_missing_signature:
  "signature_hdr = None \<or> signature_hdr = Some [] \<Longrightarrow>
     verify pf p signature_hdr timestamp_hdr secret options
       = Inl (WebhookSignatureError ''Missing X-NOPE-Signature header'')"
  by (auto simp: verify_def)

lemma verify_missing_timestamp:
  "sg \<noteq> [] \<Longrightarrow> timestamp_hdr = None \<or> timestamp_hdr = Some [] \<Longrightarrow>
     verify pf p (Some sg) timestamp_hdr secret options
       = Inl (WebhookSignatureError ''Missing X-NOPE-Timestamp header'')"
  by (auto simp: verify_def)

lemma verify_missing_secret:
  "sg \<noteq> [] \<Longrightarrow> ts \<noteq> [] \<Longrightarrow>
     verify pf p (Some sg) (Some ts) [] options
       = Inl (WebhookSignatureError ''Webhook secret is required'')"
  by (simp add: verify_def)

lemma verify_unparseable:
  "sg \<noteq> [] \<Longrightarrow> ts \<noteq> [] \<Longrightarrow> secret \<noteq> [] \<Longrightarrow> parseInt10 ts = None \<Longrightarrow>
     verify pf p (Some sg) (Some ts) secret options
       = Inl (WebhookSignatureError ''Invalid timestamp format'')"
  by (simp add: verify_def)

lemma verify_stale:
  assumes "sg \<noteq> []" "ts \<noteq> []" "secret \<noteq> []" "parseInt10 ts = Some t"
    and "maxAge = (case maxAgeSeconds options of None \<Rightarrow> 300 | Some m \<Rightarrow> m)"
    and "maxAge > 0"
    and "Date_now pf div 1000 - t > maxAge \<or> Date_now pf div 1000 - t < - maxAge"
  shows "is_freshness_rejection (verify pf p (Some sg) (Some ts) secret options)"
    and "is_WebhookSignatureError (verify pf p (Some sg) (Some ts) secret options)"
  unfolding verify_parsed [OF assms(1-4)] using assms(5-7)
  by (auto simp: Let_def is_freshness_rejection_def is_WebhookSignatureError_def)

lemma verify_unserialisable:
  assumes "sg \<noteq> []" "ts \<noteq> []" "secret \<noteq> []" "parseInt10 ts = Some t"
    and "maxAge = (case maxAgeSeconds options of None \<Rightarrow> 300 | Some m \<Rightarrow> m)"
    and "maxAge > 0 \<longrightarrow> \<bar>Date_now pf div 1000 - t\<bar> \<le> maxAge"
    and "JSON_stringify pf v = Inl m"
  shows "verify pf (PObject v) (Some sg) (Some ts) secret options = Inl (TypeError m)"
  unfolding verify_fresh [OF assms(1-6)] using assms(7) by (simp add: payloadString_def)

lemma verify_error_kinds:
  assumes e: "verify pf p signature_hdr timestamp_hdr secret options = Inl e"
  shows "(\<exists>m. e = WebhookSignatureError m)
       \<or> (\<exists>v m. p = PObject v \<and> JSON_stringify pf v = Inl m \<and> e = TypeError m)
       \<or> (\<exists>s m. p = PString s \<and> JSON_parse pf s = Inl m \<and> e = SyntaxError m)"
proof (cases "(\<exists>sg. signature_hdr = Some sg \<and> sg \<noteq> [])
            \<and> (\<exists>ts. timestamp_hdr = Some ts \<and> ts \<noteq> []) \<and> secret \<noteq> []")
  case False
  then consider
      (sig) "signature_hdr = None \<or> signature_hdr = Some []"
    | (tsp) sg where "signature_hdr = Some sg" "sg \<noteq> []"
        "timestamp_hdr = None \<or> timestamp_hdr = Some []"
    | (sec) sg ts where "signature_hdr = Some sg" "sg \<noteq> []" "timestamp_hdr = Some ts"
        "ts \<noteq> []" "secret = []"
    by (cases signature_hdr; cases timestamp_hdr) auto
  then show ?thesis
  proof cases
    case sig
    from verify_missing_signature [OF sig, of pf p timestamp_hdr secret options] e
    show ?thesis by auto
  next
    case tsp
    from verify_missing_timestamp [OF tsp(2,3), of pf p secret options] tsp(1) e
    show ?thesis by auto
  next
    case sec
    from verify_missing_secret [OF sec(2,4), of pf p options] sec(1,3,5) e
    show ?thesis by auto
  qed
next
  case True
  then obtain sg ts where h: "signature_hdr = Some sg" "sg \<noteq> []" "timestamp_hdr = Some ts"
    "ts \<noteq> []" "secret \<noteq> []" by auto
  show ?thesis
  proof (cases "parseInt10 ts")
    case None
    from verify_unparseable [OF h(2,4,5) None, of pf p options] h(1,3) e
    show ?thesis by auto
  next
    case (Some t)
    from e show ?thesis
      unfolding h(1,3) verify_parsed [OF h(2,4,5) Some]
      by (auto simp: Let_def payloadString_def split: if_splits payload.splits sum.splits)
  qed
qed

section \<open>Decimal representation and parseInt\<close>

lemma digit_not_space_or_sign:
  "is_digit c \<Longrightarrow> \<not> is_white_space c \<and> c \<noteq> CHR ''+'' \<and> c \<noteq> CHR ''-''"
  by (auto simp: is_digit_def is_white_space_def)

lemma minus_not_space: "\<not> is_white_space CHR ''-''"
  by (simp add: is_white_space_def)

lemma takeWhile_all: "list_all P xs \<Longrightarrow> takeWhile P xs = xs"
  by (induction xs) auto

lemma parseInt10_digits:
  assumes "ds \<noteq> []" "list_all is_digit ds"
  shows "parseInt10 ds = Some (int (digits_value ds))"
    and "parseInt10 (CHR ''-'' # ds) = Some (- int (digits_value ds))"
proof -
  from assms obtain c cs where ds: "ds = c # cs" and c: "is_digit c" by (cases ds) auto
  from assms(2) have tw: "takeWhile is_digit ds = ds" by (rule takeWhile_all)
  from c digit_not_space_or_sign have nc: "\<not> is_white_space c" "c \<noteq> CHR ''+''" "c \<noteq> CHR ''-''"
    by auto
  with ds have dw: "dropWhile is_white_space ds = ds" by simp
  show "parseInt10 ds = Some (int (digits_value ds))"
    unfolding parseInt10_def dw using tw ds nc by (simp add: Let_def)
  show "parseInt10 (CHR ''-'' # ds) = Some (- int (digits_value ds))"
    unfolding parseInt10_def Let_def by (simp add: tw assms(1) minus_not_space)
qed

lemma parseInt10_decimal_integer: "is_decimal_integer s \<Longrightarrow> parseInt10 s \<noteq> None"
proof (cases s)
  case Nil
  assume "is_decimal_integer s"
  with Nil show ?thesis by (simp add: is_decimal_integer_def)
next
  case (Cons c cs)
  assume d: "is_decimal_integer s"
  show ?thesis
  proof (cases "c = CHR ''-''")
    case True
    with d Cons have "cs \<noteq> []" "list_all is_digit cs" by (simp_all add: is_decimal_integer_def)
    from parseInt10_digits(2) [OF this] True Cons show ?thesis by simp
  next
    case False
    with d Cons have "s \<noteq> []" "list_all is_digit s" by (simp_all add: is_decimal_integer_def)
    from parseInt10_digits(1) [OF this] show ?thesis by simp
  qed
qed

lemma digit_char_props:
  assumes "d < 10"
  shows "is_digit (digit_char d)" and "digit_val (digit_char d) = d"
proof -
  from assms have "d \<in> {0, 1, 2, 3, 4, 5, 6, 7, 8, 9}" by auto
  then show "is_digit (digit_char d)" and "digit_val (digit_char d) = d"
    by (auto simp: digit_char_def is_digit_def digit_val_def)
qed

lemma decimal_all_digits: "list_all is_digit (decimal n)"
proof (induction n rule: decimal.induct)
  case (1 n)
  show ?case
  proof (cases "n < 10")
    case True
    then show ?thesis by (subst decimal.simps) (simp add: digit_char_props)
  next
    case False
    with "1.IH" show ?thesis by (subst decimal.simps) (simp add: digit_char_props)
  qed
qed

lemma decimal_ne: "decimal n \<noteq> []"
  by (subst decimal.simps) simp

lemma digits_value_snoc: "digits_value (xs @ [c]) = 10 * digits_value xs + digit_val c"
  by (simp add: digits_value_def)

lemma digits_value_decimal: "digits_value (decimal n) = n"
proof (induction n rule: decimal.induct)
  case (1 n)
  show ?case
  proof (cases "n < 10")
    case True
    then show ?thesis
      by (subst decimal.simps) (simp add: digits_value_def digit_char_props)
  next
    case False
    with "1.IH" have "digits_value (decimal (n div 10)) = n div 10" by simp
    with False show ?thesis
      by (subst decimal.simps) (simp add: digits_value_snoc digit_char_props)
  qed
qed

lemma Number_toString_ne: "Number_toString n \<noteq> []"
  by (simp add: Number_toString_def decimal_ne)

lemma parseInt10_Number_toString: "parseInt10 (Number_toString n) = Some n"
proof (cases "n < 0")
  case True
  from parseInt10_digits(2) [OF decimal_ne decimal_all_digits, of "nat (- n)"] True
  show ?thesis by (simp add: Number_toString_def digits_value_decimal)
next
  case False
  from parseInt10_digits(1) [OF decimal_ne decimal_all_digits, of "nat n"] False
  show ?thesis by (simp add: Number_toString_def digits_value_decimal)
qed

section \<open>Signing and bit flips\<close>

lemma sign_Inr:
  assumes "sign pf p secret timestamp_opt = Inr sd"
    and "t = (case timestamp_opt of None \<Rightarrow> Date_now pf div 1000 | Some t' \<Rightarrow> t')"
  obtains ps where "payloadString pf p = Inr ps"
    and "signature sd = ''sha256='' @ createHmac_sha256_hex pf secret (Number_toString t @ ''.'' @ ps)"
    and "timestamp sd = Number_toString t"
  using assms by (auto simp: sign_def Let_def split: sum.splits)


lemma flip_bit_at_length [simp]: "length (flip_bit_at i s) = length s"
  by (simp add: flip_bit_at_def)






section \<open>Round trip of sign and verify\<close>

text \<open>
  Claim C1, as the code has it. Let \<open>sign(payload, secret, timestamp)\<close> return, let the secret
  be non-empty and let the signing time \<open>t\<close> (the argument, or the clock when it is omitted)
  be inside the freshness window, or the window be disabled. Then every signature check of
  \<open>verify\<close> on the signature and timestamp that \<open>sign\<close> produced passes, and \<open>verify\<close>
  returns the payload object itself for an object payload and, for a string payload, what
  \<open>JSON.parse\<close> makes of the string: the parsed value when the string is JSON, and the
  \<open>SyntaxError\<close> of \<open>JSON.parse\<close> when it is not.
\<close>

theorem verify_sign_roundtrip:
  assumes "secret \<noteq> []"
    and "sign pf p secret timestamp_opt = Inr sd"
    and "t = (case timestamp_opt of None \<Rightarrow> Date_now pf div 1000 | Some t' \<Rightarrow> t')"
    and "maxAge = (case maxAgeSeconds options of None \<Rightarrow> 300 | Some m \<Rightarrow> m)"
    and "maxAge > 0 \<longrightarrow> \<bar>Date_now pf div 1000 - t\<bar> \<le> maxAge"
  shows "verify pf p (Some (signature sd)) (Some (timestamp sd)) secret options =
           (case p of
              PString s \<Rightarrow> (case JSON_parse pf s of Inl m \<Rightarrow> Inl (SyntaxError m) | Inr v \<Rightarrow> Inr v)
            | PObject v \<Rightarrow> Inr v)"
proof -
  from assms(2,3) obtain ps where ps: "payloadString pf p = Inr ps"
    and sg: "signature sd = ''sha256='' @ createHmac_sha256_hex pf secret (Number_toString t @ ''.'' @ ps)"
    and ts: "timestamp sd = Number_toString t"
    by (rule sign_Inr)
  have ne: "signature sd \<noteq> []" "timestamp sd \<noteq> []"
    by (simp_all add: sg ts Number_toString_ne)
  have parse: "parseInt10 (timestamp sd) = Some t"
    by (simp add: ts parseInt10_Number_toString)
  show ?thesis
    unfolding verify_fresh [OF ne(1) ne(2) assms(1) parse assms(4,5)]
    by (simp add: ps sg ts strip_sha256_prefix_def)
qed

theorem verify_sign_roundtrip_witness:
  "verify demo_platform (PString ''{}'')
       (Some ''sha256=77687365632f313730303030303030302e7b7d'') (Some ''1700000000'') ''whsec''
       \<lparr>maxAgeSeconds = None\<rparr> = Inr (JObj [])
   \<and> verify demo_platform (PObject (JObj []))
       (Some ''sha256=77687365632f313730303030303030302e7b7d'') (Some ''1700000000'') ''whsec''
       \<lparr>maxAgeSeconds = Some 60\<rparr> = Inr (JObj [])"
proof -
  have ne: "''whsec'' \<noteq> []" by simp
  have t1: "(1700000000::int) = (case Some 1700000000 of None \<Rightarrow> Date_now demo_platform div 1000 | Some t' \<Rightarrow> t')"
    and t2: "(1700000000::int) = (case None of None \<Rightarrow> Date_now demo_platform div 1000 | Some t' \<Rightarrow> t')"
    by (simp_all add: demo_now)
  have m1: "(300::int) = (case maxAgeSeconds \<lparr>maxAgeSeconds = None\<rparr> of None \<Rightarrow> 300 | Some m \<Rightarrow> m)"
    and m2: "(60::int) = (case maxAgeSeconds \<lparr>maxAgeSeconds = Some 60\<rparr> of None \<Rightarrow> 300 | Some m \<Rightarrow> m)"
    by simp_all
  have f1: "(300::int) > 0 \<longrightarrow> \<bar>Date_now demo_platform div 1000 - 1700000000\<bar> \<le> 300"
    and f2: "(60::int) > 0 \<longrightarrow> \<bar>Date_now demo_platform div 1000 - 1700000000\<bar> \<le> 60"
    by (simp_all add: demo_now)
  from verify_sign_roundtrip [OF ne demo_sign(1) t1 m1 f1]
    verify_sign_roundtrip [OF ne demo_sign(2) t2 m2 f2]
  show ?thesis by (simp add: demo_platform_def demo_parse_def)
qed

text \<open>
  The round trip does not succeed for every string payload: the string \<open>hello\<close>, signed
  and inside the window, makes \<open>verify\<close> throw the \<open>SyntaxError\<close> of the final \<open>JSON.parse\<close>.
\<close>

theorem verify_sign_roundtrip_counterexample:
  "sign demo_platform (PString ''hello'') ''whsec'' (Some 1700000000)
     = Inr \<lparr>signature = ''sha256=77687365632f313730303030303030302e68656c6c6f'',
            timestamp = ''1700000000''\<rparr>
   \<and> \<bar>Date_now demo_platform div 1000 - 1700000000\<bar> \<le> 300
   \<and> verify demo_platform (PString ''hello'')
       (Some ''sha256=77687365632f313730303030303030302e68656c6c6f'') (Some ''1700000000'')
       ''whsec'' \<lparr>maxAgeSeconds = None\<rparr>
     = Inl (SyntaxError ''Unexpected token'')"
  by (simp add: eval_defs)

section \<open>Tamper rejection\<close>



section \<open>Freshness window\<close>

text \<open>
  Claim C3. Once signature, timestamp and secret are present and the timestamp parses to
  \<open>t\<close>, with a positive bound \<open>maxAge\<close> (300 when the option is absent) and
  \<open>age = now - t\<close>: \<open>verify\<close> throws the \<open>Timestamp too old\<close> error when \<open>age > maxAge\<close>, the
  \<open>Timestamp too far in future\<close> error when \<open>age < - maxAge\<close>, and does not reject on
  freshness grounds when \<open>|age| \<le> maxAge\<close>, the two boundaries \<open>age = maxAge\<close> and
  \<open>age = - maxAge\<close> included. The clock is a time value and \<open>t\<close>, \<open>maxAge\<close> and \<open>age\<close> are
  safe integers, so that the doubles of the code are these integers and are printed in
  decimal.
\<close>

theorem verify_freshness_bound:
  assumes "sg \<noteq> []" "ts \<noteq> []" "secret \<noteq> []" "parseInt10 ts = Some t"
    and "maxAge = (case maxAgeSeconds options of None \<Rightarrow> 300 | Some m \<Rightarrow> m)"
    and "maxAge > 0"
    and "age = Date_now pf div 1000 - t"
    and "is_time_value (Date_now pf)" "is_safe_integer t" "is_safe_integer maxAge"
      "is_safe_integer age"
  shows "(age > maxAge \<longrightarrow>
            verify pf p (Some sg) (Some ts) secret options =
              Inl (WebhookSignatureError
                (''Timestamp too old: '' @ Number_toString age @ ''s ago (max: ''
                   @ Number_toString maxAge @ ''s)'')))
       \<and> (age < - maxAge \<longrightarrow>
            verify pf p (Some sg) (Some ts) secret options =
              Inl (WebhookSignatureError
                (''Timestamp too far in future: '' @ Number_toString (- age)
                   @ ''s ahead (max: '' @ Number_toString maxAge @ ''s)'')))
       \<and> (age > maxAge \<or> age < - maxAge \<longrightarrow>
            is_freshness_rejection (verify pf p (Some sg) (Some ts) secret options))
       \<and> (\<bar>age\<bar> \<le> maxAge \<longrightarrow>
            \<not> is_freshness_rejection (verify pf p (Some sg) (Some ts) secret options))"
proof -
  note vp = verify_parsed [OF assms(1-4), of pf p options]
  have old: "age > maxAge \<Longrightarrow> verify pf p (Some sg) (Some ts) secret options =
              Inl (WebhookSignatureError
                (''Timestamp too old: '' @ Number_toString age @ ''s ago (max: ''
                   @ Number_toString maxAge @ ''s)''))"
    using assms(5-7) by (simp add: vp Let_def)
  have future: "age < - maxAge \<Longrightarrow> verify pf p (Some sg) (Some ts) secret options =
              Inl (WebhookSignatureError
                (''Timestamp too far in future: '' @ Number_toString (- age)
                   @ ''s ahead (max: '' @ Number_toString maxAge @ ''s)''))"
    using assms(5-7) by (simp add: vp Let_def)
  have inside: "\<bar>age\<bar> \<le> maxAge \<Longrightarrow>
      \<not> is_freshness_rejection (verify pf p (Some sg) (Some ts) secret options)"
  proof -
    assume "\<bar>age\<bar> \<le> maxAge"
    with assms(7) have "maxAge > 0 \<longrightarrow> \<bar>Date_now pf div 1000 - t\<bar> \<le> maxAge" by simp
    from verify_fresh [OF assms(1-5) this] show ?thesis
      by (simp only: after_freshness_not_rejection not_False_eq_True)
  qed
  have rej: "age > maxAge \<or> age < - maxAge \<Longrightarrow>
      is_freshness_rejection (verify pf p (Some sg) (Some ts) secret options)"
    using old future by (auto simp: is_freshness_rejection_def)
  from old future inside rej show ?thesis by blast
qed

theorem verify_freshness_bound_witness:
  "verify demo_platform (PString ''{}'') (Some ''sha256=00'') (Some ''1699999699'') ''whsec''
       \<lparr>maxAgeSeconds = None\<rparr>
     = Inl (WebhookSignatureError ''Timestamp too old: 301s ago (max: 300s)'')
   \<and> verify demo_platform (PString ''{}'') (Some ''sha256=00'') (Some ''1700000301'') ''whsec''
       \<lparr>maxAgeSeconds = None\<rparr>
     = Inl (WebhookSignatureError ''Timestamp too far in future: 301s ahead (max: 300s)'')
   \<and> \<not> is_freshness_rejection
        (verify demo_platform (PString ''{}'') (Some ''sha256=00'') (Some ''1699999700'') ''whsec''
           \<lparr>maxAgeSeconds = None\<rparr>)
   \<and> \<not> is_freshness_rejection
        (verify demo_platform (PString ''{}'') (Some ''sha256=00'') (Some ''1700000300'') ''whsec''
           \<lparr>maxAgeSeconds = None\<rparr>)"
proof -
  have p1: "parseInt10 ''1699999699'' = Some 1699999699"
    and p2: "parseInt10 ''1700000301'' = Some 1700000301"
    and p3: "parseInt10 ''1699999700'' = Some 1699999700"
    and p4: "parseInt10 ''1700000300'' = Some 1700000300"
    by (simp_all add: parseInt10_def is_white_space_def is_digit_def digits_value_def
        digit_val_def)
  have m: "(300::int) = (case maxAgeSeconds \<lparr>maxAgeSeconds = None\<rparr> of None \<Rightarrow> 300 | Some m \<Rightarrow> m)"
    by simp
  have pos: "(300::int) > 0" by simp
  have ne: "''sha256=00'' \<noteq> []" "''whsec'' \<noteq> []" "''1699999699'' \<noteq> []"
    "''1700000301'' \<noteq> []" "''1699999700'' \<noteq> []" "''1700000300'' \<noteq> []"
    by simp_all
  have a1: "(301::int) = Date_now demo_platform div 1000 - 1699999699"
    and a2: "(- 301::int) = Date_now demo_platform div 1000 - 1700000301"
    and a3: "(300::int) = Date_now demo_platform div 1000 - 1699999700"
    and a4: "(- 300::int) = Date_now demo_platform div 1000 - 1700000300"
    by (simp_all add: demo_now)
  note b = demo_bounds
  note t1 = verify_freshness_bound [OF ne(1) ne(3) ne(2) p1 m pos a1 b(1) b(3) b(7) b(8),
      of "PString ''{}''"]
    and t2 = verify_freshness_bound [OF ne(1) ne(4) ne(2) p2 m pos a2 b(1) b(4) b(7) b(9),
      of "PString ''{}''"]
    and t3 = verify_freshness_bound [OF ne(1) ne(5) ne(2) p3 m pos a3 b(1) b(5) b(7) b(7),
      of "PString ''{}''"]
    and t4 = verify_freshness_bound [OF ne(1) ne(6) ne(2) p4 m pos a4 b(1) b(6) b(7) b(10),
      of "PString ''{}''"]
  from t1 t2 t3 t4 show ?thesis
    by (simp add: Number_toString_def decimal.simps digit_char_def)
qed

section \<open>Disabled freshness check\<close>

text \<open>
  Claim C4. With \<open>maxAgeSeconds = 0\<close> no call of \<open>verify\<close> is rejected on freshness
  grounds, whatever the timestamp, and the result does not depend on the clock: it is the
  same for every value of \<open>Date.now()\<close>.
\<close>

theorem verify_maxAge_zero:
  assumes "maxAgeSeconds options = Some 0"
  shows "\<not> is_freshness_rejection (verify pf p signature_hdr timestamp_hdr secret options)
       \<and> verify (pf\<lparr>Date_now := now'\<rparr>) p signature_hdr timestamp_hdr secret options
           = verify pf p signature_hdr timestamp_hdr secret options"
proof -
  have z: "(0::int) \<le> 0" by simp
  have "\<not> is_freshness_rejection (verify pf p signature_hdr timestamp_hdr secret options)"
    unfolding verify_no_check [OF assms z]
    by (auto simp: is_freshness_rejection_def payloadString_def
        split: option.splits sum.splits payload.splits exn.splits)
  moreover have "verify (pf\<lparr>Date_now := now'\<rparr>) p signature_hdr timestamp_hdr secret options
           = verify pf p signature_hdr timestamp_hdr secret options"
    unfolding verify_no_check [OF assms z]
    by (simp split: option.split sum.split payload.split)
  ultimately show ?thesis by simp
qed

theorem verify_maxAge_zero_witness:
  "\<not> is_freshness_rejection
       (verify demo_platform (PString ''{}'') (Some ''sha256=77687365632f312e7b7d'') (Some ''1'')
          ''whsec'' \<lparr>maxAgeSeconds = Some 0\<rparr>)
   \<and> verify (demo_platform\<lparr>Date_now := 0\<rparr>) (PString ''{}'')
        (Some ''sha256=77687365632f312e7b7d'') (Some ''1'') ''whsec'' \<lparr>maxAgeSeconds = Some 0\<rparr>
     = verify demo_platform (PString ''{}'')
        (Some ''sha256=77687365632f312e7b7d'') (Some ''1'') ''whsec'' \<lparr>maxAgeSeconds = Some 0\<rparr>"
proof -
  have z: "maxAgeSeconds \<lparr>maxAgeSeconds = Some 0\<rparr> = Some 0" by simp
  from verify_maxAge_zero [OF z] show ?thesis by blast
qed

lemma verify_far_past_example:
  "verify demo_platform (PString ''{}'') (Some ''sha256=77687365632f312e7b7d'') (Some ''1'')
     ''whsec'' \<lparr>maxAgeSeconds = Some 0\<rparr> = Inr (JObj [])"
  by (simp add: eval_defs)

section \<open>Timestamp parsing\<close>

text \<open>
  Claim C5, as the code has it. With signature, timestamp and secret present, \<open>verify\<close>
  throws \<open>Invalid timestamp format\<close> exactly when \<open>parseInt(timestamp, 10)\<close> is \<open>NaN\<close>, that is
  when the string, after leading white space and one optional sign, does not begin with a
  decimal digit. The decimal representation of an integer is never rejected at this step;
  neither is a string that continues after its leading digits.
\<close>

theorem verify_invalid_timestamp_iff:
  assumes "sg \<noteq> []" "ts \<noteq> []" "secret \<noteq> []"
  shows "((verify pf p (Some sg) (Some ts) secret options
            = Inl (WebhookSignatureError ''Invalid timestamp format'')) = (parseInt10 ts = None))
       \<and> ((parseInt10 ts = None) =
            (let S = dropWhile is_white_space ts;
                 S' = (if S \<noteq> [] \<and> (hd S = CHR ''+'' \<or> hd S = CHR ''-'') then tl S else S)
             in S' = [] \<or> \<not> is_digit (hd S')))
       \<and> (is_decimal_integer ts \<longrightarrow> parseInt10 ts \<noteq> None)"
proof -
  have 1: "(verify pf p (Some sg) (Some ts) secret options
            = Inl (WebhookSignatureError ''Invalid timestamp format'')) = (parseInt10 ts = None)"
  proof (cases "parseInt10 ts")
    case None
    with assms show ?thesis by (simp add: verify_def)
  next
    case (Some t)
    have "verify pf p (Some sg) (Some ts) secret options
            \<noteq> Inl (WebhookSignatureError ''Invalid timestamp format'')"
      unfolding verify_parsed [OF assms Some]
      by (auto simp: Let_def payloadString_def split: payload.splits sum.splits)
    with Some show ?thesis by simp
  qed
  have 2: "(parseInt10 ts = None) =
            (let S = dropWhile is_white_space ts;
                 S' = (if S \<noteq> [] \<and> (hd S = CHR ''+'' \<or> hd S = CHR ''-'') then tl S else S)
             in S' = [] \<or> \<not> is_digit (hd S'))"
    by (auto simp: parseInt10_def Let_def takeWhile_eq_Nil_iff)
  from 1 2 parseInt10_decimal_integer [of ts] show ?thesis by blast
qed

theorem verify_invalid_timestamp_iff_witness:
  "verify demo_platform (PString ''{}'') (Some ''sha256=00'') (Some ''abc'') ''whsec''
       \<lparr>maxAgeSeconds = None\<rparr> = Inl (WebhookSignatureError ''Invalid timestamp format'')
   \<and> verify demo_platform (PString ''{}'') (Some ''sha256=00'') (Some ''1700000000abc'') ''whsec''
       \<lparr>maxAgeSeconds = None\<rparr> \<noteq> Inl (WebhookSignatureError ''Invalid timestamp format'')
   \<and> is_decimal_integer ''1700000000'' \<and> parseInt10 ''1700000000'' \<noteq> None"
proof -
  have ne: "''sha256=00'' \<noteq> []" "''abc'' \<noteq> []" "''whsec'' \<noteq> []" "''1700000000abc'' \<noteq> []"
    "''1700000000'' \<noteq> []" by simp_all
  have d: "is_decimal_integer ''1700000000''"
    by (simp add: is_decimal_integer_def is_digit_def)
  from verify_invalid_timestamp_iff [OF ne(1) ne(2) ne(3), of demo_platform "PString ''{}''" "\<lparr>maxAgeSeconds = None\<rparr>"]
    verify_invalid_timestamp_iff [OF ne(1) ne(4) ne(3), of demo_platform "PString ''{}''" "\<lparr>maxAgeSeconds = None\<rparr>"]
    verify_invalid_timestamp_iff [OF ne(1) ne(5) ne(3), of demo_platform "PString ''{}''" "\<lparr>maxAgeSeconds = None\<rparr>"]
    d demo_parseInt10
  show ?thesis by simp
qed

text \<open>
  A timestamp that is not the decimal representation of an integer can pass the parsing
  step and the whole verification: \<open>1700000000abc\<close>, signed as it stands, is accepted.
\<close>

theorem verify_invalid_timestamp_counterexample:
  "\<not> is_decimal_integer ''1700000000abc''
   \<and> verify demo_platform (PString ''{}'')
       (Some ''sha256=77687365632f313730303030303030306162632e7b7d'') (Some ''1700000000abc'')
       ''whsec'' \<lparr>maxAgeSeconds = None\<rparr> = Inr (JObj [])"
  by (simp add: eval_defs)

section \<open>Error kinds\<close>

text \<open>
  Claim C6, as the code has it. For every payload: a missing or empty signature, then a
  missing or empty timestamp, then an empty secret each make \<open>verify\<close> throw a
  \<open>WebhookSignatureError\<close> with its own message; an unparseable timestamp, a stale or future
  timestamp and a signature mismatch make it throw a \<open>WebhookSignatureError\<close> with theirs.
  Every exception of \<open>verify\<close> is a \<open>WebhookSignatureError\<close>, with two exceptions: the
  \<open>TypeError\<close> of \<open>JSON.stringify\<close> on an object payload that it does not serialise, which is
  what \<open>verify\<close> throws once the inputs are present and the timestamp is parsed and fresh,
  and the \<open>SyntaxError\<close> of the final \<open>JSON.parse\<close> of a string payload. Where a clause
  depends on the freshness check, the clock is a time value and the numbers are safe
  integers.
\<close>

theorem verify_uniform_error:
  "((signature_hdr = None \<or> signature_hdr = Some []) \<longrightarrow>
      verify pf p signature_hdr timestamp_hdr secret options
        = Inl (WebhookSignatureError ''Missing X-NOPE-Signature header''))
   \<and> ((\<exists>sg. signature_hdr = Some sg \<and> sg \<noteq> [])
        \<and> (timestamp_hdr = None \<or> timestamp_hdr = Some []) \<longrightarrow>
      verify pf p signature_hdr timestamp_hdr secret options
        = Inl (WebhookSignatureError ''Missing X-NOPE-Timestamp header''))
   \<and> ((\<exists>sg. signature_hdr = Some sg \<and> sg \<noteq> [])
        \<and> (\<exists>ts. timestamp_hdr = Some ts \<and> ts \<noteq> []) \<and> secret = [] \<longrightarrow>
      verify pf p signature_hdr timestamp_hdr secret options
        = Inl (WebhookSignatureError ''Webhook secret is required''))
   \<and> (sg \<noteq> [] \<and> ts \<noteq> [] \<and> secret \<noteq> [] \<and> parseInt10 ts = None \<longrightarrow>
      verify pf p (Some sg) (Some ts) secret options
        = Inl (WebhookSignatureError ''Invalid timestamp format''))
   \<and> (sg \<noteq> [] \<and> ts \<noteq> [] \<and> secret \<noteq> [] \<and> parseInt10 ts = Some t
        \<and> maxAge = (case maxAgeSeconds options of None \<Rightarrow> 300 | Some m \<Rightarrow> m)
        \<and> is_time_value (Date_now pf) \<and> is_safe_integer t \<and> is_safe_integer maxAge
        \<and> is_safe_integer (Date_now pf div 1000 - t) \<and> maxAge > 0
        \<and> (Date_now pf div 1000 - t > maxAge \<or> Date_now pf div 1000 - t < - maxAge) \<longrightarrow>
      is_freshness_rejection (verify pf p (Some sg) (Some ts) secret options)
      \<and> is_WebhookSignatureError (verify pf p (Some sg) (Some ts) secret options))
   \<and> (sg \<noteq> [] \<and> ts \<noteq> [] \<and> secret \<noteq> [] \<and> parseInt10 ts = Some t
        \<and> maxAge = (case maxAgeSeconds options of None \<Rightarrow> 300 | Some m \<Rightarrow> m)
        \<and> is_time_value (Date_now pf) \<and> is_safe_integer t \<and> is_safe_integer maxAge
        \<and> (maxAge > 0 \<longrightarrow> \<bar>Date_now pf div 1000 - t\<bar> \<le> maxAge)
        \<and> payloadString pf p = Inr ps
        \<and> createHmac_sha256_hex pf secret (ts @ ''.'' @ ps) \<noteq> strip_sha256_prefix sg \<longrightarrow>
      verify pf p (Some sg) (Some ts) secret options
        = Inl (WebhookSignatureError ''Signature verification failed''))
   \<and> (sg \<noteq> [] \<and> ts \<noteq> [] \<and> secret \<noteq> [] \<and> parseInt10 ts = Some t
        \<and> maxAge = (case maxAgeSeconds options of None \<Rightarrow> 300 | Some m \<Rightarrow> m)
        \<and> is_time_value (Date_now pf) \<and> is_safe_integer t \<and> is_safe_integer maxAge
        \<and> (maxAge > 0 \<longrightarrow> \<bar>Date_now pf div 1000 - t\<bar> \<le> maxAge)
        \<and> JSON_stringify pf v = Inl m \<longrightarrow>
      verify pf (PObject v) (Some sg) (Some ts) secret options = Inl (TypeError m))
   \<and> (\<forall>e. verify pf p signature_hdr timestamp_hdr secret options = Inl e \<longrightarrow>
         (\<exists>m. e = WebhookSignatureError m)
         \<or> (\<exists>v m. p = PObject v \<and> JSON_stringify pf v = Inl m \<and> e = TypeError m)
         \<or> (\<exists>s m. p = PString s \<and> JSON_parse pf s = Inl m \<and> e = SyntaxError m))"
proof -
  have a: "(signature_hdr = None \<or> signature_hdr = Some []) \<Longrightarrow>
      verify pf p signature_hdr timestamp_hdr secret options
        = Inl (WebhookSignatureError ''Missing X-NOPE-Signature header'')"
    by (rule verify_missing_signature)
  have b: "(\<exists>sg. signature_hdr = Some sg \<and> sg \<noteq> [])
        \<and> (timestamp_hdr = None \<or> timestamp_hdr = Some []) \<Longrightarrow>
      verify pf p signature_hdr timestamp_hdr secret options
        = Inl (WebhookSignatureError ''Missing X-NOPE-Timestamp header'')"
    using verify_missing_timestamp by blast
  have c: "(\<exists>sg. signature_hdr = Some sg \<and> sg \<noteq> [])
        \<and> (\<exists>ts. timestamp_hdr = Some ts \<and> ts \<noteq> []) \<and> secret = [] \<Longrightarrow>
      verify pf p signature_hdr timestamp_hdr secret options
        = Inl (WebhookSignatureError ''Webhook secret is required'')"
    using verify_missing_secret by blast
  have d: "sg \<noteq> [] \<and> ts \<noteq> [] \<and> secret \<noteq> [] \<and> parseInt10 ts = None \<Longrightarrow>
      verify pf p (Some sg) (Some ts) secret options
        = Inl (WebhookSignatureError ''Invalid timestamp format'')"
    using verify_unparseable by blast
  have s: "sg \<noteq> [] \<and> ts \<noteq> [] \<and> secret \<noteq> [] \<and> parseInt10 ts = Some t
        \<and> maxAge = (case maxAgeSeconds options of None \<Rightarrow> 300 | Some m \<Rightarrow> m)
        \<and> is_time_value (Date_now pf) \<and> is_safe_integer t \<and> is_safe_integer maxAge
        \<and> is_safe_integer (Date_now pf div 1000 - t) \<and> maxAge > 0
        \<and> (Date_now pf div 1000 - t > maxAge \<or> Date_now pf div 1000 - t < - maxAge) \<Longrightarrow>
      is_freshness_rejection (verify pf p (Some sg) (Some ts) secret options)
      \<and> is_WebhookSignatureError (verify pf p (Some sg) (Some ts) secret options)"
    using verify_stale [of sg ts secret t maxAge options pf p] by blast
  have f: "sg \<noteq> [] \<and> ts \<noteq> [] \<and> secret \<noteq> [] \<and> parseInt10 ts = Some t
        \<and> maxAge = (case maxAgeSeconds options of None \<Rightarrow> 300 | Some m \<Rightarrow> m)
        \<and> is_time_value (Date_now pf) \<and> is_safe_integer t \<and> is_safe_integer maxAge
        \<and> (maxAge > 0 \<longrightarrow> \<bar>Date_now pf div 1000 - t\<bar> \<le> maxAge)
        \<and> payloadString pf p = Inr ps
        \<and> createHmac_sha256_hex pf secret (ts @ ''.'' @ ps) \<noteq> strip_sha256_prefix sg \<Longrightarrow>
      verify pf p (Some sg) (Some ts) secret options
        = Inl (WebhookSignatureError ''Signature verification failed'')"
  proof -
    assume h: "sg \<noteq> [] \<and> ts \<noteq> [] \<and> secret \<noteq> [] \<and> parseInt10 ts = Some t
        \<and> maxAge = (case maxAgeSeconds options of None \<Rightarrow> 300 | Some m \<Rightarrow> m)
        \<and> is_time_value (Date_now pf) \<and> is_safe_integer t \<and> is_safe_integer maxAge
        \<and> (maxAge > 0 \<longrightarrow> \<bar>Date_now pf div 1000 - t\<bar> \<le> maxAge)
        \<and> payloadString pf p = Inr ps
        \<and> createHmac_sha256_hex pf secret (ts @ ''.'' @ ps) \<noteq> strip_sha256_prefix sg"
    then have "verify pf p (Some sg) (Some ts) secret options =
           (case payloadString pf p of
              Inl e \<Rightarrow> Inl e
            | Inr ps \<Rightarrow>
              if createHmac_sha256_hex pf secret (ts @ ''.'' @ ps) \<noteq> strip_sha256_prefix sg
              then Inl (WebhookSignatureError ''Signature verification failed'')
              else (case p of
                      PString s \<Rightarrow> (case JSON_parse pf s of Inl m \<Rightarrow> Inl (SyntaxError m) | Inr v \<Rightarrow> Inr v)
                    | PObject v \<Rightarrow> Inr v))"
      by (intro verify_fresh) auto
    with h show ?thesis by simp
  qed
  have u: "sg \<noteq> [] \<and> ts \<noteq> [] \<and> secret \<noteq> [] \<and> parseInt10 ts = Some t
        \<and> maxAge = (case maxAgeSeconds options of None \<Rightarrow> 300 | Some m \<Rightarrow> m)
        \<and> is_time_value (Date_now pf) \<and> is_safe_integer t \<and> is_safe_integer maxAge
        \<and> (maxAge > 0 \<longrightarrow> \<bar>Date_now pf div 1000 - t\<bar> \<le> maxAge)
        \<and> JSON_stringify pf v = Inl m \<Longrightarrow>
      verify pf (PObject v) (Some sg) (Some ts) secret options = Inl (TypeError m)"
    using verify_unserialisable [of sg ts secret t maxAge options pf v m] by blast
  have k: "(\<exists>m. e = WebhookSignatureError m)
         \<or> (\<exists>v m. p = PObject v \<and> JSON_stringify pf v = Inl m \<and> e = TypeError m)
         \<or> (\<exists>s m. p = PString s \<and> JSON_parse pf s = Inl m \<and> e = SyntaxError m)"
    if "verify pf p signature_hdr timestamp_hdr secret options = Inl e" for e
    using that by (rule verify_error_kinds)
  from a b c d s f u k show ?thesis by blast
qed

theorem verify_uniform_error_witness:
  "verify demo_platform (PString ''{}'') None (Some ''1700000000'') ''whsec''
       \<lparr>maxAgeSeconds = None\<rparr> = Inl (WebhookSignatureError ''Missing X-NOPE-Signature header'')
   \<and> verify demo_platform (PObject (JObj [(''n'', JBigInt 1)])) (Some []) None []
       \<lparr>maxAgeSeconds = None\<rparr> = Inl (WebhookSignatureError ''Missing X-NOPE-Signature header'')
   \<and> verify demo_platform (PString ''{}'') (Some ''sha256=00'') (Some []) ''whsec''
       \<lparr>maxAgeSeconds = None\<rparr> = Inl (WebhookSignatureError ''Missing X-NOPE-Timestamp header'')
   \<and> verify demo_platform (PString ''{}'') (Some ''sha256=00'') (Some ''1700000000'') []
       \<lparr>maxAgeSeconds = None\<rparr> = Inl (WebhookSignatureError ''Webhook secret is required'')
   \<and> verify demo_platform (PObject (JObj [(''n'', JBigInt 1)])) (Some ''sha256=00'') (Some ''abc'')
       ''whsec'' \<lparr>maxAgeSeconds = None\<rparr> = Inl (WebhookSignatureError ''Invalid timestamp format'')
   \<and> is_WebhookSignatureError
        (verify demo_platform (PObject (JObj [(''n'', JBigInt 1)])) (Some ''sha256=00'')
           (Some ''1699999699'') ''whsec'' \<lparr>maxAgeSeconds = None\<rparr>)
   \<and> verify demo_platform (PString ''{}'') (Some ''sha256=00'') (Some ''1700000000'') ''whsec''
       \<lparr>maxAgeSeconds = None\<rparr> = Inl (WebhookSignatureError ''Signature verification failed'')
   \<and> verify demo_platform (PObject (JObj [(''n'', JBigInt 1)])) (Some ''sha256=00'')
       (Some ''1700000000'') ''whsec'' \<lparr>maxAgeSeconds = None\<rparr>
       = Inl (TypeError ''Do not know how to serialize a BigInt'')"
proof -
  note i1 = verify_uniform_error
    [where pf = "demo_platform" and
      p = "PString ''{}''" and
      signature_hdr = "None" and
      timestamp_hdr = "Some ''1700000000''" and
      secret = "''whsec''" and
      options = "\<lparr>maxAgeSeconds = None\<rparr>" and
      sg = "''sha256=00''" and
      ts = "''1700000000''" and
      t = "1700000000" and
      maxAge = "300" and
      ps = "''{}''" and
      v = "JObj [(''n'', JBigInt 1)]" and
      m = "''Do not know how to serialize a BigInt''"]
  note i2 = verify_uniform_error
    [where pf = "demo_platform" and
      p = "PObject (JObj [(''n'', JBigInt 1)])" and
      signature_hdr = "Some []" and
      timestamp_hdr = "None" and
      secret = "[]" and
      options = "\<lparr>maxAgeSeconds = None\<rparr>" and
      sg = "''sha256=00''" and
      ts = "''1700000000''" and
      t = "1700000000" and
      maxAge = "300" and
      ps = "''{}''" and
      v = "JObj [(''n'', JBigInt 1)]" and
      m = "''Do not know how to serialize a BigInt''"]
  note i3 = verify_uniform_error
    [where pf = "demo_platform" and
      p = "PString ''{}''" and
      signature_hdr = "Some ''sha256=00''" and
      timestamp_hdr = "Some []" and
      secret = "''whsec''" and
      options = "\<lparr>maxAgeSeconds = None\<rparr>" and
      sg = "''sha256=00''" and
      ts = "''1700000000''" and
      t = "1700000000" and
      maxAge = "300" and
      ps = "''{}''" and
      v = "JObj [(''n'', JBigInt 1)]" and
      m = "''Do not know how to serialize a BigInt''"]
  note i4 = verify_uniform_error
    [where pf = "demo_platform" and
      p = "PString ''{}''" and
      signature_hdr = "Some ''sha256=00''" and
      timestamp_hdr = "Some ''1700000000''" and
      secret = "[]" and
      options = "\<lparr>maxAgeSeconds = None\<rparr>" and
      sg = "''sha256=00''" and
      ts = "''1700000000''" and
      t = "1700000000" and
      maxAge = "300" and
      ps = "''{}''" and
      v = "JObj [(''n'', JBigInt 1)]" and
      m = "''Do not know how to serialize a BigInt''"]
  note i5 = verify_uniform_error
    [where pf = "demo_platform" and
      p = "PObject (JObj [(''n'', JBigInt 1)])" and
      signature_hdr = "Some ''sha256=00''" and
      timestamp_hdr = "Some ''1700000000''" and
      secret = "''whsec''" and
      options = "\<lparr>maxAgeSeconds = None\<rparr>" and
      sg = "''sha256=00''" and
      ts = "''abc''" and
      t = "1700000000" and
      maxAge = "300" and
      ps = "''{}''" and
      v = "JObj [(''n'', JBigInt 1)]" and
      m = "''Do not know how to serialize a BigInt''"]
  note i6 = verify_uniform_error
    [where pf = "demo_platform" and
      p = "PObject (JObj [(''n'', JBigInt 1)])" and
      signature_hdr = "Some ''sha256=00''" and
      timestamp_hdr = "Some ''1700000000''" and
      secret = "''whsec''" and
      options = "\<lparr>maxAgeSeconds = None\<rparr>" and
      sg = "''sha256=00''" and
      ts = "''1699999699''" and
      t = "1699999699" and
      maxAge = "300" and
      ps = "''{}''" and
      v = "JObj [(''n'', JBigInt 1)]" and
      m = "''Do not know how to serialize a BigInt''"]
  note i7 = verify_uniform_error
    [where pf = "demo_platform" and
      p = "PString ''{}''" and
      signature_hdr = "Some ''sha256=00''" and
      timestamp_hdr = "Some ''1700000000''" and
      secret = "''whsec''" and
      options = "\<lparr>maxAgeSeconds = None\<rparr>" and
      sg = "''sha256=00''" and
      ts = "''1700000000''" and
      t = "1700000000" and
      maxAge = "300" and
      ps = "''{}''" and
      v = "JObj [(''n'', JBigInt 1)]" and
      m = "''Do not know how to serialize a BigInt''"]
  have p6: "parseInt10 ''1699999699'' = Some 1699999699"
    by (simp add: parseInt10_def is_white_space_def is_digit_def digits_value_def digit_val_def)
  have s: "JSON_stringify demo_platform (JObj [(''n'', JBigInt 1)])
      = Inl ''Do not know how to serialize a BigInt''"
    by (simp add: demo_platform_def demo_stringify_def)
  have h: "createHmac_sha256_hex demo_platform ''whsec'' (''1700000000'' @ ''.'' @ ''{}'')
      \<noteq> strip_sha256_prefix ''sha256=00''"
    unfolding demo_expected by (simp add: strip_sha256_prefix_def)
  have 1: "verify demo_platform (PString ''{}'') None (Some ''1700000000'') ''whsec''
       \<lparr>maxAgeSeconds = None\<rparr> = Inl (WebhookSignatureError ''Missing X-NOPE-Signature header'')"
    using i1 by simp
  have 2: "verify demo_platform (PObject (JObj [(''n'', JBigInt 1)])) (Some []) None []
       \<lparr>maxAgeSeconds = None\<rparr> = Inl (WebhookSignatureError ''Missing X-NOPE-Signature header'')"
    using i2 by simp
  have 3: "verify demo_platform (PString ''{}'') (Some ''sha256=00'') (Some []) ''whsec''
       \<lparr>maxAgeSeconds = None\<rparr> = Inl (WebhookSignatureError ''Missing X-NOPE-Timestamp header'')"
    using i3 by simp
  have 4: "verify demo_platform (PString ''{}'') (Some ''sha256=00'') (Some ''1700000000'') []
       \<lparr>maxAgeSeconds = None\<rparr> = Inl (WebhookSignatureError ''Webhook secret is required'')"
    using i4 by simp
  have 5: "verify demo_platform (PObject (JObj [(''n'', JBigInt 1)])) (Some ''sha256=00'') (Some ''abc'')
       ''whsec'' \<lparr>maxAgeSeconds = None\<rparr> = Inl (WebhookSignatureError ''Invalid timestamp format'')"
    using i5 demo_parseInt10(3) by simp
  have 6: "is_WebhookSignatureError
        (verify demo_platform (PObject (JObj [(''n'', JBigInt 1)])) (Some ''sha256=00'')
           (Some ''1699999699'') ''whsec'' \<lparr>maxAgeSeconds = None\<rparr>)"
    using i6 p6 demo_bounds by (simp add: demo_now)
  have 7: "verify demo_platform (PString ''{}'') (Some ''sha256=00'') (Some ''1700000000'') ''whsec''
       \<lparr>maxAgeSeconds = None\<rparr> = Inl (WebhookSignatureError ''Signature verification failed'')"
    using i7 demo_parseInt10(1) demo_bounds demo_payloadString(1) [of "''{}''"] h
    by (simp add: demo_now)
  have 8: "verify demo_platform (PObject (JObj [(''n'', JBigInt 1)])) (Some ''sha256=00'')
       (Some ''1700000000'') ''whsec'' \<lparr>maxAgeSeconds = None\<rparr>
       = Inl (TypeError ''Do not know how to serialize a BigInt'')"
    using i7 demo_parseInt10(1) demo_bounds s by (simp add: demo_now)
  from 1 2 3 4 5 6 7 8 show ?thesis by blast
qed

text \<open>
  An object with a BigInt property, with the inputs present and the timestamp fresh: the
  \<open>TypeError\<close> of \<open>JSON.stringify\<close> leaves \<open>verify\<close> as it is thrown.
\<close>

theorem verify_uniform_error_counterexample:
  "verify demo_platform (PObject (JObj [(''n'', JBigInt 1)])) (Some ''sha256=00'')
     (Some ''1700000000'') ''whsec'' \<lparr>maxAgeSeconds = None\<rparr>
     = Inl (TypeError ''Do not know how to serialize a BigInt'')"
  by (simp add: eval_defs)

section \<open>Signature comparison\<close>

text \<open>
  Claim C7. Once the earlier steps have passed, a received signature that differs from the
  expected one makes \<open>verify\<close> throw \<open>Signature verification failed\<close>, both when the two
  have the same length and when their lengths differ. For hex strings of different lengths
  \<open>timingSafeEqual\<close> throws its \<open>RangeError\<close>, and the comparison step as a whole, with its
  \<open>catch\<close>, is equality of the two strings.
\<close>

theorem verify_comparison_total:
  assumes "sg \<noteq> []" "ts \<noteq> []" "secret \<noteq> []" "parseInt10 ts = Some t"
    and "maxAge = (case maxAgeSeconds options of None \<Rightarrow> 300 | Some m \<Rightarrow> m)"
    and "maxAge > 0 \<longrightarrow> \<bar>Date_now pf div 1000 - t\<bar> \<le> maxAge"
    and "payloadString pf p = Inr ps"
    and "expected = createHmac_sha256_hex pf secret (ts @ ''.'' @ ps)"
    and "received = strip_sha256_prefix sg"
  shows "(length received = length expected \<and> received \<noteq> expected \<longrightarrow>
            verify pf p (Some sg) (Some ts) secret options
              = Inl (WebhookSignatureError ''Signature verification failed''))
       \<and> (length received \<noteq> length expected \<longrightarrow>
            verify pf p (Some sg) (Some ts) secret options
              = Inl (WebhookSignatureError ''Signature verification failed''))
       \<and> (list_all is_hex expected \<and> list_all is_hex received
            \<and> length received \<noteq> length expected \<longrightarrow>
            timingSafeEqual (Buffer_from expected) (Buffer_from received)
              = Inl (RangeError ''Input buffers must have the same byte length''))
       \<and> (case timingSafeEqual (Buffer_from expected) (Buffer_from received) of
             Inl _ \<Rightarrow> False | Inr b \<Rightarrow> b) = (expected = received)"
proof -
  have neq: "received \<noteq> expected \<Longrightarrow> verify pf p (Some sg) (Some ts) secret options
              = Inl (WebhookSignatureError ''Signature verification failed'')"
    unfolding verify_fresh [OF assms(1-6)] using assms(7-9) by auto
  have len: "length received \<noteq> length expected \<Longrightarrow> received \<noteq> expected" by auto
  from neq len timingSafeEqual_hex_length [of expected received] isValid_iff [of expected received]
  show ?thesis by simp
qed

theorem verify_comparison_total_witness:
  "verify demo_platform (PString ''{}'')
       (Some ''sha256=77687365632f313730303030303030302e7b7e'') (Some ''1700000000'') ''whsec''
       \<lparr>maxAgeSeconds = None\<rparr> = Inl (WebhookSignatureError ''Signature verification failed'')
   \<and> verify demo_platform (PString ''{}'') (Some ''sha256=00'') (Some ''1700000000'') ''whsec''
       \<lparr>maxAgeSeconds = None\<rparr> = Inl (WebhookSignatureError ''Signature verification failed'')
   \<and> timingSafeEqual (Buffer_from ''77687365632f313730303030303030302e7b7d'') (Buffer_from ''00'')
       = Inl (RangeError ''Input buffers must have the same byte length'')"
proof -
  have ne: "''sha256=77687365632f313730303030303030302e7b7e'' \<noteq> []" "''sha256=00'' \<noteq> []"
    "''1700000000'' \<noteq> []" "''whsec'' \<noteq> []" by simp_all
  have m: "(300::int) = (case maxAgeSeconds \<lparr>maxAgeSeconds = None\<rparr> of None \<Rightarrow> 300 | Some m \<Rightarrow> m)"
    by simp
  have f: "(300::int) > 0 \<longrightarrow> \<bar>Date_now demo_platform div 1000 - 1700000000\<bar> \<le> 300"
    by (simp add: demo_now)
  have r1: "''77687365632f313730303030303030302e7b7e''
      = strip_sha256_prefix ''sha256=77687365632f313730303030303030302e7b7e''"
    and r2: "''00'' = strip_sha256_prefix ''sha256=00''"
    by (simp_all add: strip_sha256_prefix_def)
  note e = demo_expected(1) [symmetric]
  note p = demo_payloadString(1) [of "''{}''"]
  have hex: "list_all is_hex ''77687365632f313730303030303030302e7b7d''" "list_all is_hex ''00''"
    by (simp_all add: is_hex_def is_digit_def)
  from verify_comparison_total [OF ne(1) ne(3) ne(4) demo_parseInt10(1) m f p e r1]
    verify_comparison_total [OF ne(2) ne(3) ne(4) demo_parseInt10(1) m f p e r2] hex
  show ?thesis by simp
qed

section \<open>Local validation in the client\<close>

text \<open>
  Claim C8. \<open>evaluate\<close> and \<open>screen\<close> with neither \<open>messages\<close> nor \<open>text\<close>, or with both,
  reject with an \<open>Error\<close> that names the fault and issue no HTTP request; whenever a request
  is issued, exactly one of the two was present.
\<close>

theorem evaluate_screen_validate_locally:
  "(messages eo = None \<and> text_input eo = None \<longrightarrow>
      evaluate pf this eo issued
        = (Inl (Error ''Either 'messages' or 'text' must be provided''), issued))
   \<and> (messages eo \<noteq> None \<and> text_input eo \<noteq> None \<longrightarrow>
      evaluate pf this eo issued
        = (Inl (Error ''Only one of 'messages' or 'text' can be provided, not both''), issued))
   \<and> (snd (evaluate pf this eo issued) \<noteq> issued \<longrightarrow>
      (messages eo = None) \<noteq> (text_input eo = None))
   \<and> (messages so = None \<and> text_input so = None \<longrightarrow>
      screen pf this so issued
        = (Inl (Error ''Either 'messages' or 'text' must be provided''), issued))
   \<and> (messages so \<noteq> None \<and> text_input so \<noteq> None \<longrightarrow>
      screen pf this so issued
        = (Inl (Error ''Only one of 'messages' or 'text' can be provided, not both''), issued))
   \<and> (snd (screen pf this so issued) \<noteq> issued \<longrightarrow>
      (messages so = None) \<noteq> (text_input so = None))"
proof -
  have e1: "messages eo = None \<and> text_input eo = None \<Longrightarrow>
      evaluate pf this eo issued
        = (Inl (Error ''Either 'messages' or 'text' must be provided''), issued)"
    by (simp add: evaluate_def)
  have e2: "messages eo \<noteq> None \<and> text_input eo \<noteq> None \<Longrightarrow>
      evaluate pf this eo issued
        = (Inl (Error ''Only one of 'messages' or 'text' can be provided, not both''), issued)"
    by (simp add: evaluate_def)
  have e3: "snd (evaluate pf this eo issued) \<noteq> issued \<Longrightarrow>
      (messages eo = None) \<noteq> (text_input eo = None)"
    using e1 e2 by (cases "messages eo = None"; cases "text_input eo = None") auto
  have s1: "messages so = None \<and> text_input so = None \<Longrightarrow>
      screen pf this so issued
        = (Inl (Error ''Either 'messages' or 'text' must be provided''), issued)"
    by (simp add: screen_def)
  have s2: "messages so \<noteq> None \<and> text_input so \<noteq> None \<Longrightarrow>
      screen pf this so issued
        = (Inl (Error ''Only one of 'messages' or 'text' can be provided, not both''), issued)"
    by (simp add: screen_def)
  have s3: "snd (screen pf this so issued) \<noteq> issued \<Longrightarrow>
      (messages so = None) \<noteq> (text_input so = None)"
    using s1 s2 by (cases "messages so = None"; cases "text_input so = None") auto
  from e1 e2 e3 s1 s2 s3 show ?thesis by blast
qed

theorem evaluate_screen_validate_locally_witness:
  "evaluate demo_platform demo_client
       \<lparr>messages = None, text_input = None, config = None, userContext = None\<rparr> []
     = (Inl (Error ''Either 'messages' or 'text' must be provided''), [])
   \<and> evaluate demo_platform demo_client
       \<lparr>messages = Some (JArr []), text_input = Some ''test'', config = None, userContext = None\<rparr> []
     = (Inl (Error ''Only one of 'messages' or 'text' can be provided, not both''), [])
   \<and> screen demo_platform demo_client
       \<lparr>messages = None, text_input = None, config = None\<rparr> []
     = (Inl (Error ''Either 'messages' or 'text' must be provided''), [])
   \<and> screen demo_platform demo_client
       \<lparr>messages = Some (JArr []), text_input = Some ''test'', config = None\<rparr> []
     = (Inl (Error ''Only one of 'messages' or 'text' can be provided, not both''), [])"
  using evaluate_screen_validate_locally
    [of "\<lparr>messages = None, text_input = None, config = None, userContext = None\<rparr>"
      demo_platform demo_client "[]" "\<lparr>messages = None, text_input = None, config = None\<rparr>"]
    evaluate_screen_validate_locally
    [of "\<lparr>messages = Some (JArr []), text_input = Some ''test'', config = None, userContext = None\<rparr>"
      demo_platform demo_client "[]"
      "\<lparr>messages = Some (JArr []), text_input = Some ''test'', config = None\<rparr>"]
  by simp

lemma evaluate_reaches_network_example:
  "snd (evaluate demo_platform demo_client
       \<lparr>messages = Some (JArr []), text_input = None, config = None, userContext = None\<rparr> [])
     = [\<lparr>req_url = ''https://api.nope.net/v1/evaluate'', req_method = ''POST'',
         req_headers = [(''Content-Type'', ''application/json''),
                        (''User-Agent'', ''nope-node/0.1.0''),
                        (''Authorization'', ''Bearer test_key'')],
         req_body = Some (serialize (JObj [(''config'', JObj []), (''messages'', JArr [])]))\<rparr>]
   \<and> fst (evaluate demo_platform demo_client
       \<lparr>messages = Some (JArr []), text_input = None, config = None, userContext = None\<rparr> [])
     = Inl (NopeRateLimitError ''{}'' (Some (Exact 30000)) (Some ''{}''))"
  by (simp add: evaluate_def request_def demo_client_def new_NopeClient_def DEFAULT_BASE_URL_def
      DEFAULT_TIMEOUT_def strip_trailing_slash_def demo_platform_def demo_stringify_def
      handleResponse_def demo_response_def Response_ok_def demo_parse_def
      parseFloat_times_1000_def is_digit_def digits_value_def digit_val_def Let_def)

section \<open>Rate limiting\<close>

lemma handleResponse_429:
  assumes "status r = 429"
  shows "\<exists>msg. handleResponse pf r =
           Inl (NopeRateLimitError msg
                  (case headers_get r ''Retry-After'' of
                     None \<Rightarrow> None
                   | Some h \<Rightarrow> if h \<noteq> [] then Some (parseFloat_times_1000 h) else None)
                  (Some (response_text r)))"
  using assms by (simp add: handleResponse_def Response_ok_def Let_def)

text \<open>
  Claim C9. For a response with status 429 \<open>handleResponse\<close> throws a
  \<open>NopeRateLimitError\<close>. Its \<open>retryAfter\<close> is 30000 when the response has the header
  \<open>Retry-After: 30\<close>, in general a thousand times the header's number of seconds, and
  \<open>undefined\<close> when the response has no such header.
\<close>

theorem handleResponse_rate_limit:
  assumes "status r = 429"
  shows "(\<exists>msg ra. handleResponse pf r = Inl (NopeRateLimitError msg ra (Some (response_text r))))
       \<and> (headers_get r ''Retry-After'' = Some ''30'' \<longrightarrow>
            (\<exists>msg. handleResponse pf r =
               Inl (NopeRateLimitError msg (Some (Exact 30000)) (Some (response_text r)))))
       \<and> (headers_get r ''Retry-After'' = None \<longrightarrow>
            (\<exists>msg. handleResponse pf r =
               Inl (NopeRateLimitError msg None (Some (response_text r)))))
       \<and> (\<forall>h. headers_get r ''Retry-After'' = Some h \<and> h \<noteq> [] \<and> length h \<le> 12
                \<and> list_all is_digit h \<longrightarrow>
            (\<exists>msg. handleResponse pf r =
               Inl (NopeRateLimitError msg (Some (Exact (int (digits_value h) * 1000)))
                      (Some (response_text r)))))"
proof -
  from handleResponse_429 [OF assms, of pf] obtain msg where
    m: "handleResponse pf r =
           Inl (NopeRateLimitError msg
                  (case headers_get r ''Retry-After'' of
                     None \<Rightarrow> None
                   | Some h \<Rightarrow> if h \<noteq> [] then Some (parseFloat_times_1000 h) else None)
                  (Some (response_text r)))" by blast
  have thirty: "parseFloat_times_1000 ''30'' = Exact 30000"
    by (simp add: parseFloat_times_1000_def is_digit_def digits_value_def digit_val_def)
  have 1: "\<exists>msg ra. handleResponse pf r = Inl (NopeRateLimitError msg ra (Some (response_text r)))"
    using m by blast
  have 2: "headers_get r ''Retry-After'' = Some ''30'' \<Longrightarrow>
            (\<exists>msg. handleResponse pf r =
               Inl (NopeRateLimitError msg (Some (Exact 30000)) (Some (response_text r))))"
    using m thirty by simp
  have 3: "headers_get r ''Retry-After'' = None \<Longrightarrow>
            (\<exists>msg. handleResponse pf r =
               Inl (NopeRateLimitError msg None (Some (response_text r))))"
    using m by simp
  have 4: "headers_get r ''Retry-After'' = Some h \<and> h \<noteq> [] \<and> length h \<le> 12
                \<and> list_all is_digit h \<Longrightarrow>
            (\<exists>msg. handleResponse pf r =
               Inl (NopeRateLimitError msg (Some (Exact (int (digits_value h) * 1000)))
                      (Some (response_text r))))" for h
    using m by (simp add: parseFloat_times_1000_def)
  from 1 2 3 4 show ?thesis by blast
qed

theorem handleResponse_rate_limit_witness:
  "(\<exists>msg. handleResponse demo_platform demo_response
             = Inl (NopeRateLimitError msg (Some (Exact 30000)) (Some ''{}'')))
   \<and> (\<exists>msg. handleResponse demo_platform
               \<lparr>status = 429, headers_get = (\<lambda>name. None), response_text = ''slow down''\<rparr>
             = Inl (NopeRateLimitError msg None (Some ''slow down'')))"
proof -
  have s: "status demo_response = 429"
    "status \<lparr>status = 429, headers_get = (\<lambda>name. None), response_text = ''slow down''\<rparr> = 429"
    by (simp_all add: demo_response_def)
  have h: "headers_get demo_response ''Retry-After'' = Some ''30''"
    "headers_get \<lparr>status = 429, headers_get = (\<lambda>name. None), response_text = ''slow down''\<rparr>
       ''Retry-After'' = None"
    "response_text demo_response = ''{}''"
    by (simp_all add: demo_response_def)
  from handleResponse_rate_limit [OF s(1), of demo_platform]
    handleResponse_rate_limit [OF s(2), of demo_platform] h
  show ?thesis by simp
qed

text \<open>
  \<open>request\<close> hands the result of \<open>handleResponse\<close> to its caller unchanged.
\<close>

lemma request_resolved:
  assumes "truthy b" "JSON_stringify pf b = Inr s"
    and "req = \<lparr>req_url = baseUrl this @ path, req_method = method,
                 req_headers =
                   [(''Content-Type'', ''application/json''), (''User-Agent'', ''nope-node/0.1.0'')]
                   @ (case apiKey this of
                        None \<Rightarrow> []
                      | Some k \<Rightarrow> if k \<noteq> [] then [(''Authorization'', ''Bearer '' @ k)] else []),
                 req_body = Some s\<rparr>"
    and "fetch pf req = Resolved r"
  shows "request pf this method path (Some b) issued = (handleResponse pf r, issued @ [req])"
  using assms by (simp add: request_def Let_def)

section \<open>Return value\<close>

text \<open>
  Claim C10. When every signature check passes, \<open>verify\<close> returns the payload object
  itself for an object payload and the result of \<open>JSON.parse\<close> for a string payload; for a
  string that is not JSON it throws the \<open>SyntaxError\<close> of \<open>JSON.parse\<close>, which is not a
  \<open>WebhookSignatureError\<close>.
\<close>

theorem verify_returns_payload:
  assumes "sg \<noteq> []" "ts \<noteq> []" "secret \<noteq> []" "parseInt10 ts = Some t"
    and "maxAge = (case maxAgeSeconds options of None \<Rightarrow> 300 | Some m \<Rightarrow> m)"
    and "maxAge > 0 \<longrightarrow> \<bar>Date_now pf div 1000 - t\<bar> \<le> maxAge"
    and "payloadString pf p = Inr ps"
    and "strip_sha256_prefix sg = createHmac_sha256_hex pf secret (ts @ ''.'' @ ps)"
  shows "(\<forall>v. p = PObject v \<longrightarrow> verify pf p (Some sg) (Some ts) secret options = Inr v)
       \<and> (\<forall>s v. p = PString s \<and> JSON_parse pf s = Inr v \<longrightarrow>
             verify pf p (Some sg) (Some ts) secret options = Inr v)
       \<and> (\<forall>s m. p = PString s \<and> JSON_parse pf s = Inl m \<longrightarrow>
             verify pf p (Some sg) (Some ts) secret options = Inl (SyntaxError m)
             \<and> \<not> is_WebhookSignatureError (verify pf p (Some sg) (Some ts) secret options))"
  unfolding verify_fresh [OF assms(1-6)]
  using assms(7,8) by (auto simp: is_WebhookSignatureError_def)

theorem verify_returns_payload_witness:
  "verify demo_platform (PObject (JObj []))
       (Some ''sha256=77687365632f313730303030303030302e7b7d'') (Some ''1700000000'') ''whsec''
       \<lparr>maxAgeSeconds = None\<rparr> = Inr (JObj [])
   \<and> verify demo_platform (PString ''{}'')
       (Some ''sha256=77687365632f313730303030303030302e7b7d'') (Some ''1700000000'') ''whsec''
       \<lparr>maxAgeSeconds = None\<rparr> = Inr (JObj [])
   \<and> verify demo_platform (PString ''ping'')
       (Some ''sha256=77687365632f313730303030303030302e70696e67'') (Some ''1700000000'') ''whsec''
       \<lparr>maxAgeSeconds = None\<rparr> = Inl (SyntaxError ''Unexpected token'')"
proof -
  have ne: "''sha256=77687365632f313730303030303030302e7b7d'' \<noteq> []"
    "''sha256=77687365632f313730303030303030302e70696e67'' \<noteq> []"
    "''1700000000'' \<noteq> []" "''whsec'' \<noteq> []" by simp_all
  have m: "(300::int) = (case maxAgeSeconds \<lparr>maxAgeSeconds = None\<rparr> of None \<Rightarrow> 300 | Some m \<Rightarrow> m)"
    by simp
  have f: "(300::int) > 0 \<longrightarrow> \<bar>Date_now demo_platform div 1000 - 1700000000\<bar> \<le> 300"
    by (simp add: demo_now)
  have s1: "strip_sha256_prefix ''sha256=77687365632f313730303030303030302e7b7d''
      = createHmac_sha256_hex demo_platform ''whsec'' (''1700000000'' @ ''.'' @ ''{}'')"
    and s2: "strip_sha256_prefix ''sha256=77687365632f313730303030303030302e70696e67''
      = createHmac_sha256_hex demo_platform ''whsec'' (''1700000000'' @ ''.'' @ ''ping'')"
    unfolding demo_expected by (simp_all add: strip_sha256_prefix_def)
  have j: "JSON_parse demo_platform ''{}'' = Inr (JObj [])"
    "JSON_parse demo_platform ''ping'' = Inl ''Unexpected token''"
    by (simp_all add: demo_platform_def demo_parse_def)
  from verify_returns_payload [OF ne(1) ne(3) ne(4) demo_parseInt10(1) m f demo_payloadString(2) s1]
    verify_returns_payload [OF ne(1) ne(3) ne(4) demo_parseInt10(1) m f demo_payloadString(1) s1]
    verify_returns_payload [OF ne(2) ne(3) ne(4) demo_parseInt10(1) m f demo_payloadString(1) s2]
    j
  show ?thesis by simp
qed

end
